theory Spec2Isabelle
  imports Complex_Main
begin

section \<open>Numbers, vectors and physics bodies\<close>

text \<open>
  The scenes compute with Python floats. They are modelled as real numbers: every float is
  a rational, and the comparisons, \<open>max\<close>, floor division and remainder used below are
  exact on floats, so the model agrees with the code wherever no rounding of a sum or a
  difference decides the outcome. Input polling, animation and sound calls leave the state
  considered here unchanged and are not part of the model.
\<close>

datatype vector2 = v2 (vec_x: real) (vec_y: real)

text \<open>A Box2D body is identified by its handle; \<open>==\<close> on bodies compares handles.\<close>

type_synonym b2Body = nat

text \<open>
  Modelled from the spec: the engine's \<open>BodyComponent\<close> (the Physics Adapter of the
  spec, section 4.1) is not among the sources. It exposes position and velocity in pixels
  through a fixed linear scale, so the model keeps both in pixels; \<open>disable\<close> removes the
  body from the simulation.
\<close>

record body_component =
  b2body :: b2Body
  position_pixels :: vector2
  velocity_pixels :: vector2
  body_enabled :: bool

definition get_position_pixels :: "body_component \<Rightarrow> vector2" where
  "get_position_pixels b = position_pixels b"

definition get_velocity_pixels :: "body_component \<Rightarrow> vector2" where
  "get_velocity_pixels b = velocity_pixels b"

definition set_position :: "vector2 \<Rightarrow> body_component \<Rightarrow> body_component" where
  "set_position p b = b\<lparr>position_pixels := p\<rparr>"

definition set_velocity :: "vector2 \<Rightarrow> body_component \<Rightarrow> body_component" where
  "set_velocity v b = b\<lparr>velocity_pixels := v\<rparr>"

definition disable :: "body_component \<Rightarrow> body_component" where
  "disable b = b\<lparr>body_enabled := False\<rparr>"

text \<open>
  A body met in \<open>get_contacts()\<close>: its \<open>userData\<close> is \<open>None\<close> or the owning game
  object, of which only the tags are read.
\<close>

record contact_body =
  userData :: "string list option"

definition has_tag :: "string \<Rightarrow> string list \<Rightarrow> bool" where
  "has_tag t tags = (t \<in> set tags)"

text \<open>The test \<open>other and other.has_tag(t)\<close> of the contact loops.\<close>

definition tagged :: "string \<Rightarrow> contact_body \<Rightarrow> bool" where
  "tagged t cb = (case userData cb of None \<Rightarrow> False | Some tags \<Rightarrow> has_tag t tags)"

text \<open>A one-way platform (\<open>StaticBox\<close>); \<open>pre_solve\<close> reads only its body.\<close>

record static_box =
  platform_body :: b2Body

section \<open>The character\<close>

record ncharacter =
  p_position :: vector2
  player_number :: int
  width :: real
  body :: body_component
  flip_x :: bool
  fall_through :: bool
  fall_through_timer :: real
  fall_through_duration :: real
  attack_display_timer :: real
  attack_display_duration :: real
  attack :: bool
  has_won :: bool
  is_active :: bool

text \<open>
  \<open>NCharacter.__init__\<close> followed by the body construction of \<open>init\<close>: the body is
  created at the start position with handle \<open>h\<close>.
\<close>

definition NCharacter_init :: "vector2 \<Rightarrow> real \<Rightarrow> int \<Rightarrow> b2Body \<Rightarrow> ncharacter" where
  "NCharacter_init pos w n h =
     \<lparr> p_position = pos, player_number = n, width = w,
       body = \<lparr> b2body = h, position_pixels = pos, velocity_pixels = v2 0 0,
                body_enabled = True \<rparr>,
       flip_x = False,
       fall_through = False, fall_through_timer = 0, fall_through_duration = 2 / 10,
       attack_display_timer = 0, attack_display_duration = 1 / 10,
       attack = False, has_won = False, is_active = True \<rparr>"

subsection \<open>The one-way platform rule\<close>

text \<open>
  \<open>NCharacter.pre_solve\<close> (identical in both levels). \<open>other\<close> starts as \<open>None\<close>
  and \<open>sign\<close> as \<open>0.0\<close>; the loop over the platforms returns \<open>False\<close> at the first
  platform whose body is \<open>other\<close>.
\<close>

fun platform_loop :: "b2Body option \<Rightarrow> static_box list \<Rightarrow> bool" where
  "platform_loop other [] = True"
| "platform_loop other (platform # platforms) =
     (if other = Some (platform_body platform) then False else platform_loop other platforms)"

definition pre_solve ::
  "ncharacter \<Rightarrow> b2Body \<Rightarrow> b2Body \<Rightarrow> vector2 \<Rightarrow> static_box list \<Rightarrow> bool" where
  "pre_solve self body_a body_b normal platforms =
     (let (sign, other) =
            (if body_a = b2body (body self) then (1, Some body_b)
             else if body_b = b2body (body self) then (- 1, Some body_a)
             else (0, None))
      in if sign * vec_y normal < 1 / 2 then False
         else if fall_through self then platform_loop other platforms
         else True)"

subsection \<open>The contact listener\<close>

record contact =
  fixtureA_body :: b2Body
  fixtureB_body :: b2Body
  worldManifold_normal :: vector2
  contact_enabled :: bool

text \<open>
  \<open>NContactListener.PreSolve\<close> (identical in both levels): the first character owning one
  of the two bodies enables the contact; the call of \<open>pre_solve\<close> is commented out in the
  source. When no character matches, the contact is left as it is.
\<close>

fun PreSolve :: "ncharacter list \<Rightarrow> contact \<Rightarrow> contact" where
  "PreSolve [] c = c"
| "PreSolve (character # characters) c =
     (if fixtureA_body c = b2body (body character) \<or> fixtureB_body c = b2body (body character)
      then c\<lparr>contact_enabled := True\<rparr>
      else PreSolve characters c)"

section \<open>Dictionaries\<close>

text \<open>
  A Python \<open>dict\<close> is an association list in insertion order: assignment to a present
  key replaces the value in place, assignment to a new key appends, \<open>del\<close> removes.
\<close>

type_synonym ('k, 'v) dict = "('k \<times> 'v) list"

definition dict_keys :: "('k, 'v) dict \<Rightarrow> 'k list" where
  "dict_keys d = map fst d"

definition dict_contains :: "'k \<Rightarrow> ('k, 'v) dict \<Rightarrow> bool" where
  "dict_contains k d = (k \<in> set (dict_keys d))"

definition dict_get :: "('k, 'v) dict \<Rightarrow> 'k \<Rightarrow> 'v option" where
  "dict_get d k = map_of d k"

fun dict_set :: "'k \<Rightarrow> 'v \<Rightarrow> ('k, 'v) dict \<Rightarrow> ('k, 'v) dict" where
  "dict_set k v [] = [(k, v)]"
| "dict_set k v (e # d) = (if fst e = k then (k, v) # d else e # dict_set k v d)"

section \<open>The game and the scene of level 1\<close>

text \<open>
  Modelled from the spec: the engine's \<open>Game\<close> is not among the sources. The cross-scene
  results store is one attribute per level, \<open>player_times_level1\<close> to
  \<open>player_times_level3\<close>, each absent (\<open>None\<close>) until first written. A scene
  transition is a deferred request (spec, section 5); \<open>go_to_scene_next\<close> logs each
  request together with the level-3 store as it stands when the request is made.
\<close>

record game =
  player_times_level1 :: "(int, real) dict option"
  player_times_level2 :: "(int, real) dict option"
  player_times_level3 :: "(int, real) dict option"
  transition_requests :: "(int, real) dict option list"

text \<open>
  Reading a store that may be absent: \<open>getattr(self.game, name, {})\<close> in the
  leaderboard, and the \<open>hasattr\<close> test that creates an empty store in level 3.
\<close>

definition level_times :: "(int, real) dict option \<Rightarrow> (int, real) dict" where
  "level_times attr = (case attr of None \<Rightarrow> [] | Some d \<Rightarrow> d)"

definition go_to_scene_next :: "game \<Rightarrow> game" where
  "go_to_scene_next g = g\<lparr>transition_requests := transition_requests g @ [player_times_level3 g]\<rparr>"

record nscene =
  platforms :: "static_box list"
  characters :: "ncharacter list"
  winners :: "int list"
  winner_times :: "(int, real) dict"
  winner_display_duration :: real
  game :: game

text \<open>\<open>NScene.add_winner\<close>.\<close>

definition add_winner :: "int \<Rightarrow> nscene \<Rightarrow> nscene" where
  "add_winner player_num s =
     (if player_num \<notin> set (winners s)
      then s\<lparr>winners := winners s @ [player_num],
             winner_times := dict_set player_num 0 (winner_times s)\<rparr>
      else s)"

text \<open>
  The loop of the scene updates over a snapshot of the keys of \<open>winner_times\<close>: every
  entry grows by \<open>delta_time\<close> and is deleted once it exceeds the display duration.
\<close>

fun age_winner_times :: "real \<Rightarrow> real \<Rightarrow> (int, real) dict \<Rightarrow> (int, real) dict" where
  "age_winner_times delta_time duration [] = []"
| "age_winner_times delta_time duration ((player_num, t) # d) =
     (if t + delta_time > duration then age_winner_times delta_time duration d
      else (player_num, t + delta_time) # age_winner_times delta_time duration d)"

text \<open>\<open>NScene.update\<close>; \<open>enter\<close> is the Enter key or the gamepad's start button.\<close>

definition NScene_update :: "real \<Rightarrow> bool \<Rightarrow> nscene \<Rightarrow> nscene" where
  "NScene_update delta_time enter s =
     (let s1 = s\<lparr>winner_times :=
                   age_winner_times delta_time (winner_display_duration s) (winner_times s)\<rparr>
      in if enter then s1\<lparr>game := go_to_scene_next (game s1)\<rparr> else s1)"

section \<open>The character's update\<close>

text \<open>
  What one call of \<open>update\<close> reads from the engine: the horizontal input as stored by the
  movement component, the polled keys and axes, the bodies returned by the attack's
  \<open>circle_overlap\<close>, the results of the calls of \<open>get_contacts()\<close> (one in level 1;
  level 3 calls it a second time for the bombs), and the level size.
\<close>

record frame_input =
  movement_move_x :: real
  key_s_pressed :: bool
  pad_down_pressed :: bool
  move_y :: real
  key_space_pressed :: bool
  pad_attack_pressed :: bool
  overlap_bodies :: "b2Body list"
  contacts :: "contact_body list"
  bomb_contacts :: "contact_body list"
  level_size :: vector2

text \<open>Lines 193-197: the facing direction follows the horizontal input.\<close>

definition facing :: "frame_input \<Rightarrow> ncharacter \<Rightarrow> ncharacter" where
  "facing inp self =
     (if \<bar>movement_move_x inp\<bar> > 1 / 10 then self\<lparr>flip_x := movement_move_x inp < 0\<rparr>
      else self)"

text \<open>The down-input event and the countdown of the fall-through timer.\<close>

definition down_input :: "frame_input \<Rightarrow> bool" where
  "down_input inp = (key_s_pressed inp \<or> pad_down_pressed inp \<or> move_y inp > 1 / 2)"

definition fall_through_start :: "frame_input \<Rightarrow> ncharacter \<Rightarrow> ncharacter" where
  "fall_through_start inp self =
     (if down_input inp
      then self\<lparr>fall_through := True, fall_through_timer := fall_through_duration self\<rparr>
      else self)"

definition fall_through_tick :: "real \<Rightarrow> ncharacter \<Rightarrow> ncharacter" where
  "fall_through_tick delta_time self =
     (if fall_through_timer self > 0
      then (let self1 = self\<lparr>fall_through_timer := max 0 (fall_through_timer self - delta_time)\<rparr>
            in if fall_through_timer self1 = 0 then self1\<lparr>fall_through := False\<rparr> else self1)
      else self)"

text \<open>
  The attack: the flag and the display timer are set and every overlapping body other than
  the character's own receives an impulse. The impulses act on other bodies inside Box2D;
  the model returns them as the list of calls made.
\<close>

definition attack_input :: "frame_input \<Rightarrow> bool" where
  "attack_input inp = (key_space_pressed inp \<or> pad_attack_pressed inp)"

fun impulse_loop :: "ncharacter \<Rightarrow> b2Body list \<Rightarrow> (b2Body \<times> vector2) list" where
  "impulse_loop self [] = []"
| "impulse_loop self (other_body # bodies) =
     (if other_body = b2body (body self) then impulse_loop self bodies
      else (other_body, v2 (if flip_x self then - 10 else 10) (- 10)) # impulse_loop self bodies)"

definition attack_start ::
  "frame_input \<Rightarrow> ncharacter \<Rightarrow> ncharacter \<times> (b2Body \<times> vector2) list" where
  "attack_start inp self =
     (if attack_input inp
      then (self\<lparr>attack := True, attack_display_timer := attack_display_duration self\<rparr>,
            impulse_loop self (overlap_bodies inp))
      else (self, []))"

definition attack_tick :: "real \<Rightarrow> ncharacter \<Rightarrow> ncharacter" where
  "attack_tick delta_time self =
     (if attack_display_timer self > 0
      then (let self1 = self\<lparr>attack_display_timer :=
                               max 0 (attack_display_timer self - delta_time)\<rparr>
            in if attack_display_timer self1 = 0 then self1\<lparr>attack := False\<rparr> else self1)
      else self)"

text \<open>
  The goal check: the first contact whose owner carries the tag \<open>goal\<close> makes the
  character win, registers it through the \<open>add_winner\<close> method of its scene
  (\<open>add_w\<close>), moves the body off-world and disables it; the loop then breaks.
\<close>

definition win :: "ncharacter \<Rightarrow> ncharacter" where
  "win self =
     self\<lparr>has_won := True, is_active := False,
          body := disable (set_velocity (v2 0 0) (set_position (v2 (- 1000) (- 1000)) (body self)))\<rparr>"

fun goal_loop ::
  "(int \<Rightarrow> 's \<Rightarrow> 's) \<Rightarrow> contact_body list \<Rightarrow> ncharacter \<times> 's \<Rightarrow> ncharacter \<times> 's" where
  "goal_loop add_w [] (self, scene) = (self, scene)"
| "goal_loop add_w (contact_body # cbs) (self, scene) =
     (if tagged ''goal'' contact_body
      then (win self, add_w (player_number self) scene)
      else goal_loop add_w cbs (self, scene))"

definition goal_check ::
  "(int \<Rightarrow> 's \<Rightarrow> 's) \<Rightarrow> frame_input \<Rightarrow> ncharacter \<times> 's \<Rightarrow> ncharacter \<times> 's" where
  "goal_check add_w inp st =
     (if \<not> has_won (fst st) then goal_loop add_w (contacts inp) st else st)"

text \<open>Respawn at the start position with zero velocity.\<close>

definition respawn :: "ncharacter \<Rightarrow> ncharacter" where
  "respawn self = self\<lparr>body := set_velocity (v2 0 0) (set_position (p_position self) (body self))\<rparr>"

text \<open>
  \<open>NCharacter.update\<close> of level 1 (\<open>n_game.py\<close>). The out-of-bounds test reads the
  body's position after the goal check.
\<close>

definition NCharacter_update ::
  "real \<Rightarrow> frame_input \<Rightarrow> ncharacter \<times> nscene \<Rightarrow>
     (ncharacter \<times> nscene) \<times> (b2Body \<times> vector2) list" where
  "NCharacter_update delta_time inp st =
     (let self1 = fall_through_tick delta_time (fall_through_start inp (facing inp (fst st)));
          (self2, impulses) = attack_start inp self1;
          self3 = attack_tick delta_time self2;
          (self4, scene4) = goal_check add_winner inp (self3, snd st);
          self5 = (if vec_y (get_position_pixels (body self4)) > vec_y (level_size inp) + 200
                   then respawn self4 else self4)
      in ((self5, scene4), impulses))"

section \<open>Level 3\<close>

text \<open>
  \<open>NScene3\<close> has the fields of \<open>NScene\<close> and the match timer. The blood particles are
  random presentation state and are left out.
\<close>

record nscene3 = nscene +
  time_limit :: real
  elapsed_time :: real
  player_completion_times :: "(int, real) dict"

text \<open>
  \<open>NScene3.add_winner\<close>: besides the winners list it records the completion time, in the
  scene and in the results store of the game (created when absent).
\<close>

definition store_of :: "game \<Rightarrow> (int, real) dict" where
  "store_of g = level_times (player_times_level3 g)"

definition store_set :: "int \<Rightarrow> real \<Rightarrow> game \<Rightarrow> game" where
  "store_set player_num t g = g\<lparr>player_times_level3 := Some (dict_set player_num t (store_of g))\<rparr>"

definition add_winner3 :: "int \<Rightarrow> nscene3 \<Rightarrow> nscene3" where
  "add_winner3 player_num s =
     (if player_num \<notin> set (winners s)
      then s\<lparr>winners := winners s @ [player_num],
             winner_times := dict_set player_num 0 (winner_times s),
             game := store_set player_num (elapsed_time s) (game s),
             player_completion_times :=
               dict_set player_num (elapsed_time s) (player_completion_times s)\<rparr>
      else s)"

text \<open>
  The timeout loop of \<open>NScene3.update\<close>: the character at index \<open>i\<close> is player
  \<open>i + 1\<close>, and receives the sentinel \<open>-1.0\<close> in the store when the scene has no
  completion time for it.
\<close>

fun dnf_loop :: "nat list \<Rightarrow> (int, real) dict \<Rightarrow> game \<Rightarrow> game" where
  "dnf_loop [] completion_times g = g"
| "dnf_loop (i # idxs) completion_times g =
     dnf_loop idxs completion_times
       (if \<not> dict_contains (int i + 1) completion_times then store_set (int i + 1) (- 1) g
        else g)"

text \<open>
  The tests and the timeout block of \<open>NScene3.update\<close>: every character has a
  completion time; no winner text is left on display; and the block that creates the store
  when absent and runs the timeout loop.
\<close>

definition all_finished :: "nscene3 \<Rightarrow> bool" where
  "all_finished s = (length (player_completion_times s) = length (characters s))"

definition displays_over :: "nscene3 \<Rightarrow> bool" where
  "displays_over s =
     (list_all (\<lambda>t. t > winner_display_duration s) (map snd (winner_times s)) \<or>
      winner_times s = [])"

definition record_dnf :: "nscene3 \<Rightarrow> game" where
  "record_dnf s =
     dnf_loop [0..<length (characters s)] (player_completion_times s)
       ((game s)\<lparr>player_times_level3 := Some (store_of (game s))\<rparr>)"

text \<open>
  \<open>NScene3.update\<close>. When every character has finished and no winner text is left on
  display, the scene requests the transition and returns; otherwise the timeout and the
  Enter key are handled, in this order.
\<close>

definition NScene3_update :: "real \<Rightarrow> bool \<Rightarrow> nscene3 \<Rightarrow> nscene3" where
  "NScene3_update delta_time enter s =
     (let s1 = s\<lparr>elapsed_time := elapsed_time s + delta_time\<rparr>;
          s2 = s1\<lparr>winner_times :=
                    age_winner_times delta_time (winner_display_duration s1) (winner_times s1)\<rparr>
      in if all_finished s2 \<and> length (characters s2) > 0 \<and> displays_over s2
         then s2\<lparr>game := go_to_scene_next (game s2)\<rparr>
         else
           (let s3 = (if elapsed_time s2 \<ge> time_limit s2
                      then s2\<lparr>game := go_to_scene_next (record_dnf s2)\<rparr>
                      else s2)
            in if enter then s3\<lparr>game := go_to_scene_next (game s3)\<rparr> else s3))"

text \<open>
  The bomb check of level 3: the first contact with a bomb sends the character back to its
  start position with zero velocity.
\<close>

fun bomb_loop :: "contact_body list \<Rightarrow> ncharacter \<Rightarrow> ncharacter" where
  "bomb_loop [] self = self"
| "bomb_loop (contact_body # cbs) self =
     (if tagged ''bomb'' contact_body then respawn self else bomb_loop cbs self)"

text \<open>
  The world wrap of level 3, on the position read after the goal and bomb checks; the
  velocity read before the teleport is written back after it.
\<close>

definition world_wrap :: "vector2 \<Rightarrow> real \<Rightarrow> ncharacter \<Rightarrow> ncharacter" where
  "world_wrap position level_width self =
     (if vec_x position \<le> 0
      then self\<lparr>body := set_velocity (get_velocity_pixels (body self))
                          (set_position (v2 level_width (vec_y position)) (body self))\<rparr>
      else if vec_x position \<ge> level_width
      then self\<lparr>body := set_velocity (get_velocity_pixels (body self))
                          (set_position (v2 0 (vec_y position)) (body self))\<rparr>
      else self)"

text \<open>
  \<open>NCharacter.update\<close> of level 3 (\<open>n_game3.py\<close>). The out-of-bounds test uses the
  position read before the world wrap.
\<close>

definition NCharacter3_update ::
  "real \<Rightarrow> frame_input \<Rightarrow> ncharacter \<times> nscene3 \<Rightarrow>
     (ncharacter \<times> nscene3) \<times> (b2Body \<times> vector2) list" where
  "NCharacter3_update delta_time inp st =
     (let self1 = fall_through_tick delta_time (fall_through_start inp (facing inp (fst st)));
          (self2, impulses) = attack_start inp self1;
          self3 = attack_tick delta_time self2;
          (self4, scene4) = goal_check add_winner3 inp (self3, snd st);
          self5 = bomb_loop (bomb_contacts inp) self4;
          position = get_position_pixels (body self5);
          self6 = world_wrap position (vec_x (level_size inp)) self5;
          self7 = (if vec_y position > vec_y (level_size inp) + 200 then respawn self6 else self6)
      in ((self7, scene4), impulses))"

section \<open>Scenes over time\<close>

text \<open>
  The scene set-up of \<open>init\<close>: one character per \<open>Start\<close> marker, at most four,
  numbered from 1; \<open>starts\<close> gives each marker's position and the handle of the body
  created for it.
\<close>

definition make_characters :: "(vector2 \<times> b2Body) list \<Rightarrow> ncharacter list" where
  "make_characters starts =
     map (\<lambda>(i, (pos, h)). NCharacter_init pos 16 (int i + 1) h) (enumerate 0 (take 4 starts))"

definition NScene_init :: "static_box list \<Rightarrow> (vector2 \<times> b2Body) list \<Rightarrow> game \<Rightarrow> nscene" where
  "NScene_init ps starts g =
     \<lparr> platforms = ps, characters = make_characters starts, winners = [], winner_times = [],
       winner_display_duration = 3, game = g \<rparr>"

definition NScene3_init :: "static_box list \<Rightarrow> (vector2 \<times> b2Body) list \<Rightarrow> game \<Rightarrow> nscene3" where
  "NScene3_init ps starts g =
     \<lparr> platforms = ps, characters = make_characters starts, winners = [], winner_times = [],
       winner_display_duration = 3, game = g,
       time_limit = 120, elapsed_time = 0, player_completion_times = [] \<rparr>"

text \<open>
  Modelled from the spec: the frame loop of the engine and the world step of Box2D are not
  among the sources. Between its creation and its end a scene sees three kinds of events
  (spec, section 5): the update of one of its characters, the update of the scene, and a
  step of the physics world. The world step (and the impulses of an attack) may give every
  character body any position and velocity, and touches nothing else of a character.
\<close>

datatype event =
  Character_update nat real frame_input
| Scene_update real bool
| World_step "nat \<Rightarrow> vector2" "nat \<Rightarrow> vector2"

definition move_bodies :: "(nat \<Rightarrow> vector2) \<Rightarrow> (nat \<Rightarrow> vector2) \<Rightarrow> ncharacter list \<Rightarrow> ncharacter list" where
  "move_bodies pos vel chs =
     map (\<lambda>(i, c). c\<lparr>body := (body c)\<lparr>position_pixels := pos i, velocity_pixels := vel i\<rparr>\<rparr>)
       (enumerate 0 chs)"

fun step :: "event \<Rightarrow> nscene \<Rightarrow> nscene" where
  "step (Character_update i delta_time inp) s =
     (if i < length (characters s)
      then (let ((self', s'), impulses) = NCharacter_update delta_time inp (characters s ! i, s)
            in s'\<lparr>characters := (characters s')[i := self']\<rparr>)
      else s)"
| "step (Scene_update delta_time enter) s = NScene_update delta_time enter s"
| "step (World_step pos vel) s = s\<lparr>characters := move_bodies pos vel (characters s)\<rparr>"

fun step3 :: "event \<Rightarrow> nscene3 \<Rightarrow> nscene3" where
  "step3 (Character_update i delta_time inp) s =
     (if i < length (characters s)
      then (let ((self', s'), impulses) = NCharacter3_update delta_time inp (characters s ! i, s)
            in s'\<lparr>characters := (characters s')[i := self']\<rparr>)
      else s)"
| "step3 (Scene_update delta_time enter) s = NScene3_update delta_time enter s"
| "step3 (World_step pos vel) s = s\<lparr>characters := move_bodies pos vel (characters s)\<rparr>"

definition run :: "event list \<Rightarrow> nscene \<Rightarrow> nscene" where
  "run es s = fold step es s"

definition run3 :: "event list \<Rightarrow> nscene3 \<Rightarrow> nscene3" where
  "run3 es s = fold step3 es s"

section \<open>The leaderboard\<close>

text \<open>Decimal digits of a natural number and of an integer, as \<open>str\<close> prints them.\<close>

fun str_nat :: "nat \<Rightarrow> string" where
  "str_nat n =
     (if n < 10 then [''0123456789'' ! n]
      else str_nat (n div 10) @ [''0123456789'' ! (n mod 10)])"

declare str_nat.simps [simp del]

definition str_int :: "int \<Rightarrow> string" where
  "str_int i = (if i < 0 then ''-'' @ str_nat (nat (- i)) else str_nat (nat i))"

text \<open>
  Rounding to an integer with ties to even, as float formatting rounds the exact value of
  the float.
\<close>

definition round_half_even :: "real \<Rightarrow> int" where
  "round_half_even r =
     (let f = \<lfloor>r\<rfloor>; d = r - of_int f
      in if d < 1 / 2 then f else if d > 1 / 2 then f + 1 else if even f then f else f + 1)"

text \<open>
  The format specification \<open>05.2f\<close>: two decimals, padded with zeros after the sign to
  a width of five characters.
\<close>

definition format_05_2f :: "real \<Rightarrow> string" where
  "format_05_2f r =
     (let q = nat (round_half_even (\<bar>r\<bar> * 100));
          digits = str_nat (q div 100) @ ''.'' @ str_nat (q mod 100 div 10) @ str_nat (q mod 10);
          sign = (if r < 0 then ''-'' else [])
      in sign @ replicate (5 - length sign - length digits) (CHR ''0'') @ digits)"

text \<open>
  \<open>LeaderboardScreen.format_time\<close>: \<open>//\<close> is the floor of the quotient and \<open>%\<close>
  the remainder of that division.
\<close>

definition format_time :: "real \<Rightarrow> string" where
  "format_time time_seconds =
     (if time_seconds < 0 then ''DNF''
      else (let minutes = \<lfloor>time_seconds / 60\<rfloor>;
                seconds = time_seconds - 60 * of_int \<lfloor>time_seconds / 60\<rfloor>
            in str_int minutes @ '':'' @ format_05_2f seconds))"

record player_result =
  player :: int
  total_time :: real
  status :: string
  level1 :: string
  level2 :: string
  level3 :: string

text \<open>\<open>times.get(player_num, -1.0)\<close>.\<close>

definition time_of :: "(int, real) dict \<Rightarrow> int \<Rightarrow> real" where
  "time_of d player_num = (case dict_get d player_num of None \<Rightarrow> - 1 | Some t \<Rightarrow> t)"

text \<open>The body of the loop of \<open>LeaderboardScreen.init\<close> for one player.\<close>

definition result_of :: "game \<Rightarrow> int \<Rightarrow> player_result" where
  "result_of g player_num =
     (let time1 = time_of (level_times (player_times_level1 g)) player_num;
          time2 = time_of (level_times (player_times_level2 g)) player_num;
          time3 = time_of (level_times (player_times_level3 g)) player_num;
          (total, stat) =
            (if time1 < 0 \<or> time2 < 0 \<or> time3 < 0 then (- 1, ''DNF'')
             else (time1 + time2 + time3, format_time (time1 + time2 + time3)))
      in \<lparr> player = player_num, total_time = total, status = stat,
           level1 = (if time1 \<ge> 0 then format_time time1 else ''DNF''),
           level2 = (if time2 \<ge> 0 then format_time time2 else ''DNF''),
           level3 = (if time3 \<ge> 0 then format_time time3 else ''DNF'') \<rparr>)"

text \<open>
  The sort key \<open>(total_time < 0, total_time if total_time >= 0 else inf)\<close>; \<open>None\<close>
  stands for \<open>float('inf')\<close>. Tuples compare by their first differing component, and
  \<open>False < True\<close>.
\<close>

definition sort_key :: "player_result \<Rightarrow> bool \<times> real option" where
  "sort_key r = (total_time r < 0, if total_time r \<ge> 0 then Some (total_time r) else None)"

fun float_less :: "real option \<Rightarrow> real option \<Rightarrow> bool" where
  "float_less (Some a) (Some b) = (a < b)"
| "float_less (Some a) None = True"
| "float_less None b = False"

definition key_less :: "bool \<times> real option \<Rightarrow> bool \<times> real option \<Rightarrow> bool" where
  "key_less k1 k2 =
     (if fst k1 \<noteq> fst k2 then \<not> fst k1 \<and> fst k2 else float_less (snd k1) (snd k2))"

text \<open>
  \<open>list.sort\<close> is a stable sort. The model is the stable insertion sort: an element
  moves behind exactly those later elements whose key is strictly smaller.
\<close>

fun insert_result :: "player_result \<Rightarrow> player_result list \<Rightarrow> player_result list" where
  "insert_result r [] = [r]"
| "insert_result r (r' # rs) =
     (if key_less (sort_key r') (sort_key r) then r' # insert_result r rs else r # r' # rs)"

definition sort_results :: "player_result list \<Rightarrow> player_result list" where
  "sort_results rs = foldr insert_result rs []"

text \<open>
  The players of the leaderboard are the keys of the three stores, collected in a set.
  \<open>LeaderboardScreen.init\<close> visits them in the order in which the interpreter iterates
  that set, which the parameter \<open>order\<close> supplies: a list without duplicates whose
  elements are \<open>all_players\<close>.
\<close>

definition all_players :: "game \<Rightarrow> int set" where
  "all_players g =
     set (dict_keys (level_times (player_times_level1 g))) \<union>
     set (dict_keys (level_times (player_times_level2 g))) \<union>
     set (dict_keys (level_times (player_times_level3 g)))"

definition LeaderboardScreen_init :: "int list \<Rightarrow> game \<Rightarrow> player_result list" where
  "LeaderboardScreen_init order g = sort_results (map (result_of g) order)"

section \<open>Invariants\<close>

text \<open>
  The timers of a character pair with their flags, and both durations are positive.
\<close>

definition timer_flags_paired :: "ncharacter \<Rightarrow> bool" where
  "timer_flags_paired c =
     ((fall_through c = (0 < fall_through_timer c)) \<and> (attack c = (0 < attack_display_timer c)))"

definition char_inv :: "ncharacter \<Rightarrow> bool" where
  "char_inv c =
     (timer_flags_paired c \<and> 0 < fall_through_duration c \<and> 0 < attack_display_duration c)"

text \<open>
  In a scene of level 3 the character at index \<open>i\<close> is player \<open>i + 1\<close>, the players
  with a completion time are players of the scene, each once, and the results store holds
  the completion time of each of them.
\<close>

definition numbered :: "ncharacter list \<Rightarrow> bool" where
  "numbered chs = list_all (\<lambda>(i, c). player_number c = int i + 1) (enumerate 0 chs)"

definition scene3_inv :: "nscene3 \<Rightarrow> bool" where
  "scene3_inv s =
     (numbered (characters s) \<and>
      distinct (dict_keys (player_completion_times s)) \<and>
      list_all (\<lambda>(p, t). 1 \<le> p \<and> p \<le> int (length (characters s)) \<and>
                          dict_get (store_of (game s)) p = Some t)
        (player_completion_times s))"

section \<open>Concrete inputs\<close>

text \<open>A character of a one-player scene and some frames, used to run the definitions.\<close>

definition frame_idle :: frame_input where
  "frame_idle =
     \<lparr> movement_move_x = 0, key_s_pressed = False, pad_down_pressed = False, move_y = 0,
       key_space_pressed = False, pad_attack_pressed = False, overlap_bodies = [],
       contacts = [], bomb_contacts = [], level_size = v2 640 360 \<rparr>"

definition frame_down :: frame_input where
  "frame_down = frame_idle\<lparr>key_s_pressed := True\<rparr>"

definition frame_attack :: frame_input where
  "frame_attack = frame_idle\<lparr>key_space_pressed := True, overlap_bodies := [7, 9]\<rparr>"

definition frame_goal :: frame_input where
  "frame_goal = frame_idle\<lparr>contacts := [\<lparr>userData = None\<rparr>, \<lparr>userData = Some [''goal'']\<rparr>]\<rparr>"

definition frame_bomb :: frame_input where
  "frame_bomb = frame_idle\<lparr>bomb_contacts := [\<lparr>userData = Some [''bomb'']\<rparr>]\<rparr>"

definition no_game :: game where
  "no_game = \<lparr> player_times_level1 = None, player_times_level2 = None,
               player_times_level3 = None, transition_requests = [] \<rparr>"

definition game_results :: game where
  "game_results =
     \<lparr> player_times_level1 = Some [(1, 652 / 10), (2, - 1), (3, 40)],
       player_times_level2 = Some [(1, 0), (2, 0), (3, 0)],
       player_times_level3 = Some [(1, 0), (2, 0), (3, 0)],
       transition_requests = [] \<rparr>"

definition game_level3_only :: game where
  "game_level3_only =
     \<lparr> player_times_level1 = None, player_times_level2 = None,
       player_times_level3 = Some [(1, 652 / 10), (2, - 1), (3, 40)],
       transition_requests = [] \<rparr>"

definition game_three_levels :: game where
  "game_three_levels =
     \<lparr> player_times_level1 = Some [(1, 202 / 10), (2, 30), (3, 10)],
       player_times_level2 = Some [(1, 25), (3, 14)],
       player_times_level3 = Some [(1, 20), (2, 12), (3, 16)],
       transition_requests = [] \<rparr>"

definition fallen_player :: ncharacter where
  "fallen_player =
     (NCharacter_init (v2 40 50) 16 1 7)
       \<lparr>body := \<lparr> b2body = 7, position_pixels = v2 0 561, velocity_pixels = v2 (- 30) 80,
                   body_enabled = True \<rparr>\<rparr>"

definition edge_player :: "real \<Rightarrow> ncharacter" where
  "edge_player px =
     (NCharacter_init (v2 40 50) 16 1 7)
       \<lparr>body := \<lparr> b2body = 7, position_pixels = v2 px 100, velocity_pixels = v2 (- 30) 5,
                   body_enabled = True \<rparr>\<rparr>"

definition scene_one :: nscene where
  "scene_one = NScene_init [\<lparr>platform_body = 3\<rparr>] [(v2 40 50, 7)] no_game"

definition scene3_one :: nscene3 where
  "scene3_one = NScene3_init [\<lparr>platform_body = 3\<rparr>] [(v2 40 50, 7)] no_game"

definition scene3_late :: nscene3 where
  "scene3_late =
     run3 [Scene_update 100 False, Character_update 1 (1 / 60) frame_goal]
       (NScene3_init [] [(v2 40 50, 7), (v2 60 50, 8), (v2 80 50, 9)] no_game)"

definition player_one :: ncharacter where
  "player_one = NCharacter_init (v2 40 50) 16 1 7"

section \<open>Properties of the contact rule\<close>

lemmas fixture_defs = frame_idle_def frame_down_def frame_attack_def frame_goal_def frame_bomb_def
  no_game_def scene_one_def scene3_one_def player_one_def NCharacter_init_def NScene_init_def
  NScene3_init_def make_characters_def

lemmas body_ops = get_position_pixels_def get_velocity_pixels_def set_position_def
  set_velocity_def disable_def

lemmas eval_defs = fixture_defs fallen_player_def edge_player_def body_ops tagged_def has_tag_def
  down_input_def attack_input_def

lemma platform_loop_iff:
  "platform_loop other ps = (other \<notin> Some ` platform_body ` set ps)"
  by (induction ps) auto

text \<open>
  C1. For a contact pair in which exactly one body is the character's body, with sign +1
  when the character is body A and -1 when it is body B, \<open>pre_solve\<close> returns \<open>False\<close>
  if and only if \<open>sign * normal.y < 0.5\<close>, or the fall-through flag is set and the other
  body is the body of a platform of the list; in every other such case it returns
  \<open>True\<close>.
\<close>

theorem pre_solve_rule:
  "(body_a = b2body (body self)) \<noteq> (body_b = b2body (body self)) \<Longrightarrow>
   pre_solve self body_a body_b normal ps =
     (\<not> ((if body_a = b2body (body self) then 1 else - 1) * vec_y normal < 1 / 2 \<or>
         (fall_through self \<and>
          (if body_a = b2body (body self) then body_b else body_a) \<in> platform_body ` set ps)))"
  unfolding pre_solve_def by (auto simp: platform_loop_iff)

theorem pre_solve_rule_witness:
  "((7::nat) = b2body (body ((NCharacter_init (v2 0 0) 16 1 7)\<lparr>fall_through := True\<rparr>)))
      \<noteq> ((3::nat) = b2body (body ((NCharacter_init (v2 0 0) 16 1 7)\<lparr>fall_through := True\<rparr>))) \<and>
   pre_solve ((NCharacter_init (v2 0 0) 16 1 7)\<lparr>fall_through := True\<rparr>) 7 3 (v2 0 1)
     [\<lparr>platform_body = 3\<rparr>] = False \<and>
   pre_solve (NCharacter_init (v2 0 0) 16 1 7) 7 3 (v2 0 1) [\<lparr>platform_body = 3\<rparr>] = True \<and>
   pre_solve (NCharacter_init (v2 0 0) 16 1 7) 3 7 (v2 0 1) [\<lparr>platform_body = 3\<rparr>] = False"
  using pre_solve_rule [of 7 "(NCharacter_init (v2 0 0) 16 1 7)\<lparr>fall_through := True\<rparr>" 3
          "v2 0 1" "[\<lparr>platform_body = 3\<rparr>]"]
        pre_solve_rule [of 7 "NCharacter_init (v2 0 0) 16 1 7" 3 "v2 0 1" "[\<lparr>platform_body = 3\<rparr>]"]
        pre_solve_rule [of 3 "NCharacter_init (v2 0 0) 16 1 7" 7 "v2 0 1" "[\<lparr>platform_body = 3\<rparr>]"]
  by (simp add: NCharacter_init_def)

text \<open>
  C3, as stated, fails on the rule itself: for a pair that does not contain the character's
  body, \<open>sign\<close> keeps its initial value \<open>0.0\<close>, the test \<open>0 < 0.5\<close> succeeds and
  \<open>pre_solve\<close> answers \<open>False\<close>, a disabled contact.
\<close>

theorem pre_solve_foreign_pair_counterexample:
  "(3::nat) \<noteq> b2body (body (NCharacter_init (v2 0 0) 16 1 7)) \<and>
   (4::nat) \<noteq> b2body (body (NCharacter_init (v2 0 0) 16 1 7)) \<and>
   pre_solve (NCharacter_init (v2 0 0) 16 1 7) 3 4 (v2 0 1) [] \<noteq> True"
  by (simp add: pre_solve_def NCharacter_init_def)

text \<open>
  C3, amended. For a contact pair in which neither body belongs to a character of the
  scene, the contact listener applies no filtering: it returns the contact as it received
  it, so a contact that is enabled stays enabled.
\<close>

theorem PreSolve_foreign_pair:
  "\<forall>ch \<in> set chs. fixtureA_body c \<noteq> b2body (body ch) \<and> fixtureB_body c \<noteq> b2body (body ch) \<Longrightarrow>
   PreSolve chs c = c \<and> (contact_enabled c \<longrightarrow> contact_enabled (PreSolve chs c))"
  by (induction chs) auto

theorem PreSolve_foreign_pair_witness:
  "PreSolve [NCharacter_init (v2 0 0) 16 1 7, NCharacter_init (v2 5 0) 16 2 8]
     \<lparr>fixtureA_body = 3, fixtureB_body = 4, worldManifold_normal = v2 0 1,
      contact_enabled = True\<rparr>
   = \<lparr>fixtureA_body = 3, fixtureB_body = 4, worldManifold_normal = v2 0 1,
      contact_enabled = True\<rparr>"
  using PreSolve_foreign_pair [of "[NCharacter_init (v2 0 0) 16 1 7, NCharacter_init (v2 5 0) 16 2 8]"
          "\<lparr>fixtureA_body = 3, fixtureB_body = 4, worldManifold_normal = v2 0 1,
            contact_enabled = True\<rparr>"]
  by (simp add: NCharacter_init_def)

section \<open>The phases of an update\<close>

text \<open>Each contact loop acts once, at the first matching contact, if there is one.\<close>

lemma goal_loop_eq:
  "goal_loop add_w cbs (c, s) =
     (if \<exists>cb \<in> set cbs. tagged ''goal'' cb then (win c, add_w (player_number c) s) else (c, s))"
  by (induction cbs) auto

lemma bomb_loop_eq:
  "bomb_loop cbs c = (if \<exists>cb \<in> set cbs. tagged ''bomb'' cb then respawn c else c)"
  by (induction cbs) auto

lemma goal_check_fst:
  "fst (goal_check add_w inp (c, s)) =
     (if \<not> has_won c \<and> (\<exists>cb \<in> set (contacts inp). tagged ''goal'' cb) then win c else c)"
  by (simp add: goal_check_def goal_loop_eq)

lemma goal_check_snd:
  "snd (goal_check add_w inp (c, s)) =
     (if \<not> has_won c \<and> (\<exists>cb \<in> set (contacts inp). tagged ''goal'' cb)
      then add_w (player_number c) s else s)"
  by (simp add: goal_check_def goal_loop_eq)

lemma NCharacter_update_self:
  "fst (fst (NCharacter_update dt inp (c, s))) =
     (let c4 = fst (goal_check add_winner inp
                 (attack_tick dt (fst (attack_start inp
                    (fall_through_tick dt (fall_through_start inp (facing inp c))))), s))
      in if vec_y (get_position_pixels (body c4)) > vec_y (level_size inp) + 200
         then respawn c4 else c4)"
  by (simp add: NCharacter_update_def Let_def split_beta)

lemma NCharacter3_update_self:
  "fst (fst (NCharacter3_update dt inp (c, s))) =
     (let c5 = bomb_loop (bomb_contacts inp) (fst (goal_check add_winner3 inp
                 (attack_tick dt (fst (attack_start inp
                    (fall_through_tick dt (fall_through_start inp (facing inp c))))), s)));
          c6 = world_wrap (get_position_pixels (body c5)) (vec_x (level_size inp)) c5
      in if vec_y (get_position_pixels (body c5)) > vec_y (level_size inp) + 200
         then respawn c6 else c6)"
  by (simp add: NCharacter3_update_def Let_def split_beta)

text \<open>The part of both updates before the goal check (timers and attack).\<close>

lemma ft_frame [simp]:
  "fall_through_timer (facing inp c) = fall_through_timer c"
  "fall_through (facing inp c) = fall_through c"
  "fall_through_timer (fst (attack_start inp c)) = fall_through_timer c"
  "fall_through (fst (attack_start inp c)) = fall_through c"
  "fall_through_timer (attack_tick dt c) = fall_through_timer c"
  "fall_through (attack_tick dt c) = fall_through c"
  "fall_through_timer (win c) = fall_through_timer c"
  "fall_through (win c) = fall_through c"
  "fall_through_timer (respawn c) = fall_through_timer c"
  "fall_through (respawn c) = fall_through c"
  "fall_through_timer (bomb_loop cbs c) = fall_through_timer c"
  "fall_through (bomb_loop cbs c) = fall_through c"
  "fall_through_timer (world_wrap p w c) = fall_through_timer c"
  "fall_through (world_wrap p w c) = fall_through c"
  by (simp_all add: facing_def attack_start_def attack_tick_def win_def respawn_def
        bomb_loop_eq world_wrap_def Let_def)

lemma attack_frame [simp]:
  "attack_display_timer (facing inp c) = attack_display_timer c"
  "attack (facing inp c) = attack c"
  "attack_display_timer (fall_through_start inp c) = attack_display_timer c"
  "attack (fall_through_start inp c) = attack c"
  "attack_display_timer (fall_through_tick dt c) = attack_display_timer c"
  "attack (fall_through_tick dt c) = attack c"
  "attack_display_timer (win c) = attack_display_timer c"
  "attack (win c) = attack c"
  "attack_display_timer (respawn c) = attack_display_timer c"
  "attack (respawn c) = attack c"
  "attack_display_timer (bomb_loop cbs c) = attack_display_timer c"
  "attack (bomb_loop cbs c) = attack c"
  "attack_display_timer (world_wrap p w c) = attack_display_timer c"
  "attack (world_wrap p w c) = attack c"
  by (simp_all add: facing_def fall_through_start_def fall_through_tick_def win_def respawn_def
        bomb_loop_eq world_wrap_def Let_def)

lemma duration_frame [simp]:
  "fall_through_duration (facing inp c) = fall_through_duration c"
  "attack_display_duration (facing inp c) = attack_display_duration c"
  "fall_through_duration (fall_through_start inp c) = fall_through_duration c"
  "attack_display_duration (fall_through_start inp c) = attack_display_duration c"
  "fall_through_duration (fall_through_tick dt c) = fall_through_duration c"
  "attack_display_duration (fall_through_tick dt c) = attack_display_duration c"
  "fall_through_duration (fst (attack_start inp c)) = fall_through_duration c"
  "attack_display_duration (fst (attack_start inp c)) = attack_display_duration c"
  "fall_through_duration (attack_tick dt c) = fall_through_duration c"
  "attack_display_duration (attack_tick dt c) = attack_display_duration c"
  "fall_through_duration (win c) = fall_through_duration c"
  "attack_display_duration (win c) = attack_display_duration c"
  "fall_through_duration (respawn c) = fall_through_duration c"
  "attack_display_duration (respawn c) = attack_display_duration c"
  "fall_through_duration (bomb_loop cbs c) = fall_through_duration c"
  "attack_display_duration (bomb_loop cbs c) = attack_display_duration c"
  "fall_through_duration (world_wrap p w c) = fall_through_duration c"
  "attack_display_duration (world_wrap p w c) = attack_display_duration c"
  by (simp_all add: facing_def fall_through_start_def fall_through_tick_def attack_start_def
        attack_tick_def win_def respawn_def bomb_loop_eq world_wrap_def Let_def)

lemma identity_frame [simp]:
  "has_won (facing inp c) = has_won c"
  "has_won (fall_through_start inp c) = has_won c"
  "has_won (fall_through_tick dt c) = has_won c"
  "has_won (fst (attack_start inp c)) = has_won c"
  "has_won (attack_tick dt c) = has_won c"
  "has_won (respawn c) = has_won c"
  "has_won (bomb_loop cbs c) = has_won c"
  "has_won (world_wrap p w c) = has_won c"
  "has_won (win c)"
  "p_position (facing inp c) = p_position c"
  "p_position (fall_through_start inp c) = p_position c"
  "p_position (fall_through_tick dt c) = p_position c"
  "p_position (fst (attack_start inp c)) = p_position c"
  "p_position (attack_tick dt c) = p_position c"
  "p_position (win c) = p_position c"
  "p_position (respawn c) = p_position c"
  "p_position (bomb_loop cbs c) = p_position c"
  "p_position (world_wrap p w c) = p_position c"
  "player_number (facing inp c) = player_number c"
  "player_number (fall_through_start inp c) = player_number c"
  "player_number (fall_through_tick dt c) = player_number c"
  "player_number (fst (attack_start inp c)) = player_number c"
  "player_number (attack_tick dt c) = player_number c"
  by (simp_all add: facing_def fall_through_start_def fall_through_tick_def attack_start_def
        attack_tick_def win_def respawn_def bomb_loop_eq world_wrap_def Let_def)

lemma body_frame [simp]:
  "body (facing inp c) = body c"
  "body (fall_through_start inp c) = body c"
  "body (fall_through_tick dt c) = body c"
  "body (fst (attack_start inp c)) = body c"
  "body (attack_tick dt c) = body c"
  by (simp_all add: facing_def fall_through_start_def fall_through_tick_def attack_start_def
        attack_tick_def Let_def)

lemma ft_facing [simp]:
  "fall_through_timer (fall_through_tick dt (fall_through_start inp (facing inp c))) =
     fall_through_timer (fall_through_tick dt (fall_through_start inp c))"
  "fall_through (fall_through_tick dt (fall_through_start inp (facing inp c))) =
     fall_through (fall_through_tick dt (fall_through_start inp c))"
  by (simp_all add: facing_def fall_through_start_def fall_through_tick_def Let_def)

lemma attack_prefix [simp]:
  "attack_display_timer (attack_tick dt (fst (attack_start inp
       (fall_through_tick dt' (fall_through_start inp' (facing inp'' c)))))) =
     attack_display_timer (attack_tick dt (fst (attack_start inp c)))"
  "attack (attack_tick dt (fst (attack_start inp
       (fall_through_tick dt' (fall_through_start inp' (facing inp'' c)))))) =
     attack (attack_tick dt (fst (attack_start inp c)))"
  by (simp_all add: attack_start_def attack_tick_def Let_def)

lemma update_fall_through:
  "fall_through_timer (fst (fst (NCharacter_update dt inp (c, s)))) =
     fall_through_timer (fall_through_tick dt (fall_through_start inp c))"
  "fall_through (fst (fst (NCharacter_update dt inp (c, s)))) =
     fall_through (fall_through_tick dt (fall_through_start inp c))"
  "fall_through_timer (fst (fst (NCharacter3_update dt inp (c, s3)))) =
     fall_through_timer (fall_through_tick dt (fall_through_start inp c))"
  "fall_through (fst (fst (NCharacter3_update dt inp (c, s3)))) =
     fall_through (fall_through_tick dt (fall_through_start inp c))"
  by (simp_all add: NCharacter_update_self NCharacter3_update_self goal_check_fst Let_def)

lemma update_attack:
  "attack_display_timer (fst (fst (NCharacter_update dt inp (c, s)))) =
     attack_display_timer (attack_tick dt (fst (attack_start inp c)))"
  "attack (fst (fst (NCharacter_update dt inp (c, s)))) =
     attack (attack_tick dt (fst (attack_start inp c)))"
  "attack_display_timer (fst (fst (NCharacter3_update dt inp (c, s3)))) =
     attack_display_timer (attack_tick dt (fst (attack_start inp c)))"
  "attack (fst (fst (NCharacter3_update dt inp (c, s3)))) =
     attack (attack_tick dt (fst (attack_start inp c)))"
  by (simp_all add: NCharacter_update_self NCharacter3_update_self goal_check_fst Let_def)

lemma update_durations:
  "fall_through_duration (fst (fst (NCharacter_update dt inp (c, s)))) = fall_through_duration c"
  "attack_display_duration (fst (fst (NCharacter_update dt inp (c, s)))) = attack_display_duration c"
  "fall_through_duration (fst (fst (NCharacter3_update dt inp (c, s3)))) = fall_through_duration c"
  "attack_display_duration (fst (fst (NCharacter3_update dt inp (c, s3)))) = attack_display_duration c"
  by (simp_all add: NCharacter_update_self NCharacter3_update_self goal_check_fst Let_def)

lemma update_has_won:
  "has_won (fst (fst (NCharacter_update dt inp (c, s)))) =
     (has_won c \<or> (\<exists>cb \<in> set (contacts inp). tagged ''goal'' cb))"
  "has_won (fst (fst (NCharacter3_update dt inp (c, s3)))) =
     (has_won c \<or> (\<exists>cb \<in> set (contacts inp). tagged ''goal'' cb))"
  by (auto simp add: NCharacter_update_self NCharacter3_update_self goal_check_fst Let_def)

lemma update_scene:
  "snd (fst (NCharacter_update dt inp (c, s))) =
     (if \<not> has_won c \<and> (\<exists>cb \<in> set (contacts inp). tagged ''goal'' cb)
      then add_winner (player_number c) s else s)"
  "snd (fst (NCharacter3_update dt inp (c, s3))) =
     (if \<not> has_won c \<and> (\<exists>cb \<in> set (contacts inp). tagged ''goal'' cb)
      then add_winner3 (player_number c) s3 else s3)"
  by (simp_all add: NCharacter_update_def NCharacter3_update_def Let_def split_beta goal_check_snd)


section \<open>The fall-through timer\<close>

text \<open>
  C2. A down-input event sets the fall-through flag and sets the remaining duration to 0.2
  seconds; an update then lowers a positive remaining duration by \<open>delta_time\<close>, floored
  at zero; and the flag is cleared exactly when a positive remaining duration reaches zero
  in that update. This holds for the updates of both levels, whatever else the update
  does.
\<close>

theorem fall_through_state_machine:
  "fall_through_duration c = 2 / 10 \<Longrightarrow>
   (down_input inp \<longrightarrow>
      fall_through (fall_through_start inp c) \<and>
      fall_through_timer (fall_through_start inp c) = 2 / 10) \<and>
   (let t0 = (if down_input inp then 2 / 10 else fall_through_timer c);
        f0 = (down_input inp \<or> fall_through c)
    in \<forall>c' \<in> {fst (fst (NCharacter_update dt inp (c, s))),
                fst (fst (NCharacter3_update dt inp (c, s3)))}.
         fall_through_timer c' = (if 0 < t0 then max 0 (t0 - dt) else t0) \<and>
         fall_through c' = (f0 \<and> \<not> (0 < t0 \<and> max 0 (t0 - dt) = 0)))"
  by (auto simp add: update_fall_through fall_through_start_def
        fall_through_tick_def Let_def)

theorem fall_through_state_machine_witness:
  "fall_through_timer (fst (fst (NCharacter_update (1 / 20) frame_down (player_one, scene_one)))) = 3 / 20 \<and>
   fall_through (fst (fst (NCharacter_update (1 / 20) frame_down (player_one, scene_one)))) \<and>
   fall_through_timer (fst (fst (NCharacter3_update (1 / 20) frame_down (player_one, scene3_one)))) = 3 / 20"
  using fall_through_state_machine [of player_one frame_down "1 / 20" scene_one scene3_one]
  by (simp add: player_one_def NCharacter_init_def frame_down_def frame_idle_def down_input_def Let_def)


section \<open>Characters over the life of a scene\<close>

lemma update_char_inv:
  assumes "char_inv c"
  shows "char_inv (fst (fst (NCharacter_update dt inp (c, s))))"
    and "char_inv (fst (fst (NCharacter3_update dt inp (c, s3))))"
  using assms
  by (auto simp add: char_inv_def timer_flags_paired_def update_fall_through update_attack
        update_durations fall_through_start_def fall_through_tick_def attack_start_def
        attack_tick_def Let_def)


lemma add_winner_characters [simp]:
  "characters (add_winner p s) = characters s"
  "characters (add_winner3 p s3) = characters s3"
  by (simp_all add: add_winner_def add_winner3_def)

lemma update_characters:
  "characters (snd (fst (NCharacter_update dt inp (c, s)))) = characters s"
  "characters (snd (fst (NCharacter3_update dt inp (c, s3)))) = characters s3"
  by (simp_all add: update_scene)

lemma scene_update_characters [simp]:
  "characters (NScene_update dt enter s) = characters s"
  "characters (NScene3_update dt enter s3) = characters s3"
  by (simp_all add: NScene_update_def NScene3_update_def Let_def)

lemma move_bodies_length [simp]: "length (move_bodies pos vel chs) = length chs"
  by (simp add: move_bodies_def)

lemma move_bodies_nth:
  "i < length chs \<Longrightarrow>
   move_bodies pos vel chs ! i =
     (chs ! i)\<lparr>body := (body (chs ! i))\<lparr>position_pixels := pos i, velocity_pixels := vel i\<rparr>\<rparr>"
  by (simp add: move_bodies_def nth_enumerate_eq)

lemma step_characters:
  "characters (step e s) =
     (case e of
        Character_update i dt inp \<Rightarrow>
          (if i < length (characters s)
           then (characters s)[i := fst (fst (NCharacter_update dt inp (characters s ! i, s)))]
           else characters s)
      | Scene_update dt enter \<Rightarrow> characters s
      | World_step pos vel \<Rightarrow> move_bodies pos vel (characters s))"
  by (cases e) (simp_all add: Let_def split_beta update_characters)

lemma step3_characters:
  "characters (step3 e s) =
     (case e of
        Character_update i dt inp \<Rightarrow>
          (if i < length (characters s)
           then (characters s)[i := fst (fst (NCharacter3_update dt inp (characters s ! i, s)))]
           else characters s)
      | Scene_update dt enter \<Rightarrow> characters s
      | World_step pos vel \<Rightarrow> move_bodies pos vel (characters s))"
  by (cases e) (simp_all add: Let_def split_beta update_characters)

lemma step_length [simp]:
  "length (characters (step e s)) = length (characters s)"
  "length (characters (step3 e s3)) = length (characters s3)"
  by (simp_all add: step_characters step3_characters split: event.splits)

lemma run_length [simp]:
  "length (characters (run es s)) = length (characters s)"
  "length (characters (run3 es s3)) = length (characters s3)"
  unfolding run_def run3_def
  by (induction es arbitrary: s s3) simp_all

lemma char_inv_body [simp]: "char_inv (c\<lparr>body := b\<rparr>) = char_inv c"
  by (simp add: char_inv_def timer_flags_paired_def)

lemma list_all_update:
  "list_all P xs \<Longrightarrow> P x \<Longrightarrow> list_all P (xs[i := x])"
  by (induction xs arbitrary: i) (auto split: nat.splits)

lemma move_bodies_inv: "list_all char_inv chs \<Longrightarrow> list_all char_inv (move_bodies pos vel chs)"
  by (simp add: list_all_length move_bodies_nth)

lemma step_inv:
  assumes "list_all char_inv (characters s)"
  shows "list_all char_inv (characters (step e s))"
proof (cases e)
  case (Character_update i dt inp)
  show ?thesis
  proof (cases "i < length (characters s)")
    case True
    with assms have "char_inv (characters s ! i)" by (simp add: list_all_length)
    then have "char_inv (fst (fst (NCharacter_update dt inp (characters s ! i, s))))"
      by (rule update_char_inv)
    with assms Character_update True show ?thesis
      by (simp add: step_characters list_all_update del: step.simps)
  next
    case False
    with assms Character_update show ?thesis by (simp add: step_characters del: step.simps)
  qed
next
  case (Scene_update dt enter)
  with assms show ?thesis by (simp add: step_characters del: step.simps)
next
  case (World_step pos vel)
  with assms show ?thesis by (simp add: step_characters move_bodies_inv del: step.simps)
qed

lemma step3_inv:
  assumes "list_all char_inv (characters s)"
  shows "list_all char_inv (characters (step3 e s))"
proof (cases e)
  case (Character_update i dt inp)
  show ?thesis
  proof (cases "i < length (characters s)")
    case True
    with assms have "char_inv (characters s ! i)" by (simp add: list_all_length)
    then have "char_inv (fst (fst (NCharacter3_update dt inp (characters s ! i, s))))"
      by (rule update_char_inv)
    with assms Character_update True show ?thesis
      by (simp add: step3_characters list_all_update del: step3.simps)
  next
    case False
    with assms Character_update show ?thesis by (simp add: step3_characters del: step3.simps)
  qed
next
  case (Scene_update dt enter)
  with assms show ?thesis by (simp add: step3_characters del: step3.simps)
next
  case (World_step pos vel)
  with assms show ?thesis by (simp add: step3_characters move_bodies_inv del: step3.simps)
qed

lemma run_inv:
  "list_all char_inv (characters s) \<Longrightarrow> list_all char_inv (characters (run es s))"
  unfolding run_def by (induction es arbitrary: s) (simp_all add: step_inv)

lemma run3_inv:
  "list_all char_inv (characters s) \<Longrightarrow> list_all char_inv (characters (run3 es s))"
  unfolding run3_def by (induction es arbitrary: s) (simp_all add: step3_inv)

lemma make_characters_inv: "list_all char_inv (make_characters starts)"
  by (simp add: make_characters_def list_all_iff char_inv_def timer_flags_paired_def
        NCharacter_init_def split_beta)

lemma char_inv_clears:
  assumes "char_inv c"
  shows "(if down_input inp then fall_through_duration c else fall_through_timer c) \<le> dt \<Longrightarrow>
         \<not> fall_through (fall_through_tick dt (fall_through_start inp c))"
    and "(if attack_input inp then attack_display_duration c else attack_display_timer c) \<le> dt \<Longrightarrow>
         \<not> attack (attack_tick dt (fst (attack_start inp c)))"
  using assms
  by (auto simp add: char_inv_def timer_flags_paired_def fall_through_start_def
        fall_through_tick_def attack_start_def attack_tick_def Let_def split: if_splits)

lemma char_inv_clears_update:
  assumes "char_inv c"
  shows "\<forall>c' \<in> {fst (fst (NCharacter_update dt inp (c, s))),
                 fst (fst (NCharacter3_update dt inp (c, s3)))}.
        ((if down_input inp then fall_through_duration c else fall_through_timer c) \<le> dt
           \<longrightarrow> \<not> fall_through c') \<and>
        ((if attack_input inp then attack_display_duration c else attack_display_timer c) \<le> dt
           \<longrightarrow> \<not> attack c')"
  using char_inv_clears [OF assms, of inp dt]
  by (simp add: update_fall_through update_attack)

text \<open>
  C10. From the initial state of a scene of either level, after every sequence of character
  updates, scene updates and world steps, each character's fall-through flag is set exactly
  when its fall-through timer is positive, and its attack flag exactly when its attack
  display timer is positive. In particular an update whose \<open>delta_time\<close> is at least
  the remaining duration leaves the flag cleared.
\<close>

theorem timer_flags_paired_always:
  "list_all timer_flags_paired (characters (run es (NScene_init ps starts g))) \<and>
   list_all timer_flags_paired (characters (run3 es (NScene3_init ps starts g))) \<and>
   (\<forall>c \<in> set (characters (run es (NScene_init ps starts g))) \<union>
           set (characters (run3 es (NScene3_init ps starts g))).
      \<forall>dt inp s s3. \<forall>c' \<in> {fst (fst (NCharacter_update dt inp (c, s))),
                               fst (fst (NCharacter3_update dt inp (c, s3)))}.
        ((if down_input inp then fall_through_duration c else fall_through_timer c) \<le> dt
           \<longrightarrow> \<not> fall_through c') \<and>
        ((if attack_input inp then attack_display_duration c else attack_display_timer c) \<le> dt
           \<longrightarrow> \<not> attack c'))"
proof -
  have a: "list_all char_inv (characters (run es (NScene_init ps starts g)))"
    by (rule run_inv) (simp add: NScene_init_def make_characters_inv)
  have b: "list_all char_inv (characters (run3 es (NScene3_init ps starts g)))"
    by (rule run3_inv) (simp add: NScene3_init_def make_characters_inv)
  have c: "list_all char_inv xs \<Longrightarrow> list_all timer_flags_paired xs" for xs
    by (simp add: list_all_iff char_inv_def)
  have d: "char_inv c"
    if "c \<in> set (characters (run es (NScene_init ps starts g))) \<union>
            set (characters (run3 es (NScene3_init ps starts g)))" for c
    using a b that by (auto simp add: list_all_iff)
  show ?thesis
    using c [OF a] c [OF b] char_inv_clears_update [OF d] by blast
qed

theorem timer_flags_paired_always_witness:
  "list_all timer_flags_paired
     (characters (run [Character_update 0 (1 / 20) frame_down, World_step (\<lambda>i. v2 1 2) (\<lambda>i. v2 0 9),
                       Character_update 0 (1 / 4) frame_attack, Scene_update (1 / 4) False]
                    scene_one)) \<and>
   \<not> fall_through (fst (fst (NCharacter_update (1 / 4) frame_down (player_one, scene_one)))) \<and>
   \<not> attack (fst (fst (NCharacter3_update (1 / 4) frame_attack (player_one, scene3_one))))"
proof -
  have m: "player_one \<in> set (characters (run [] (NScene_init [\<lparr>platform_body = 3\<rparr>] [(v2 40 50, 7)] no_game))) \<union>
             set (characters (run3 [] (NScene3_init [\<lparr>platform_body = 3\<rparr>] [(v2 40 50, 7)] no_game)))"
    by (simp add: run_def fixture_defs)
  have d: "(if down_input frame_down then fall_through_duration player_one
            else fall_through_timer player_one) \<le> 1 / 4"
    by (simp add: eval_defs)
  have a: "(if attack_input frame_attack then attack_display_duration player_one
            else attack_display_timer player_one) \<le> 1 / 4"
    by (simp add: eval_defs)
  note t = timer_flags_paired_always [of _ "[\<lparr>platform_body = 3\<rparr>]" "[(v2 40 50, 7)]" no_game]
  have "list_all timer_flags_paired
     (characters (run [Character_update 0 (1 / 20) frame_down, World_step (\<lambda>i. v2 1 2) (\<lambda>i. v2 0 9),
                       Character_update 0 (1 / 4) frame_attack, Scene_update (1 / 4) False]
                    scene_one))"
    using t by (simp add: scene_one_def)
  moreover have "\<not> fall_through (fst (fst (NCharacter_update (1 / 4) frame_down (player_one, scene_one))))"
    using t [of "[]"] m d by blast
  moreover have "\<not> attack (fst (fst (NCharacter3_update (1 / 4) frame_attack (player_one, scene3_one))))"
    using t [of "[]"] m a by blast
  ultimately show ?thesis by blast
qed

lemma step_has_won:
  assumes "i < length (characters s)" "has_won (characters s ! i)"
  shows "has_won (characters (step e s) ! i)"
proof (cases e)
  case (Character_update j dt inp)
  with assms show ?thesis
    by (cases "j = i") (simp_all add: step_characters update_has_won del: step.simps)
next
  case (Scene_update dt enter)
  with assms show ?thesis by (simp add: step_characters del: step.simps)
next
  case (World_step pos vel)
  with assms show ?thesis by (simp add: step_characters move_bodies_nth del: step.simps)
qed

lemma step3_has_won:
  assumes "i < length (characters s)" "has_won (characters s ! i)"
  shows "has_won (characters (step3 e s) ! i)"
proof (cases e)
  case (Character_update j dt inp)
  with assms show ?thesis
    by (cases "j = i") (simp_all add: step3_characters update_has_won del: step3.simps)
next
  case (Scene_update dt enter)
  with assms show ?thesis by (simp add: step3_characters del: step3.simps)
next
  case (World_step pos vel)
  with assms show ?thesis by (simp add: step3_characters move_bodies_nth del: step3.simps)
qed

lemma run_has_won:
  "i < length (characters s) \<Longrightarrow> has_won (characters s ! i) \<Longrightarrow>
   has_won (characters (run es s) ! i)"
  unfolding run_def
  by (induction es arbitrary: s) (simp_all add: step_has_won)

lemma run3_has_won:
  "i < length (characters s) \<Longrightarrow> has_won (characters s ! i) \<Longrightarrow>
   has_won (characters (run3 es s) ! i)"
  unfolding run3_def
  by (induction es arbitrary: s) (simp_all add: step3_has_won)

lemma make_characters_not_won: "list_all (\<lambda>c. \<not> has_won c) (make_characters starts)"
  by (simp add: make_characters_def list_all_iff NCharacter_init_def split_beta)

text \<open>
  C5. Every character of a new scene has \<open>has_won\<close> false, and no sequence of
  character updates (goal and bomb contacts, respawn, world wrap, attacks), scene updates
  (ageing of the winner display) and world steps turns a true \<open>has_won\<close> back to
  false, in either level.
\<close>

theorem has_won_monotonic:
  "list_all (\<lambda>c. \<not> has_won c) (characters (NScene_init ps starts g)) \<and>
   list_all (\<lambda>c. \<not> has_won c) (characters (NScene3_init ps starts g)) \<and>
   (i < length (characters s) \<and> has_won (characters s ! i) \<longrightarrow>
      i < length (characters (run es s)) \<and> has_won (characters (run es s) ! i)) \<and>
   (i < length (characters s3) \<and> has_won (characters s3 ! i) \<longrightarrow>
      i < length (characters (run3 es s3)) \<and> has_won (characters (run3 es s3) ! i))"
  by (simp add: NScene_init_def NScene3_init_def make_characters_not_won run_has_won run3_has_won)

theorem has_won_monotonic_witness:
  "has_won (characters (run [Character_update 0 (1 / 60) frame_goal] scene_one) ! 0) \<and>
   has_won (characters (run [Character_update 0 (1 / 60) frame_bomb, Scene_update 4 False,
                             World_step (\<lambda>i. v2 0 561) (\<lambda>i. v2 0 0),
                             Character_update 0 (1 / 60) frame_attack]
                          (run [Character_update 0 (1 / 60) frame_goal] scene_one)) ! 0)"
proof -
  have h: "0 < length (characters (run [Character_update 0 (1 / 60) frame_goal] scene_one)) \<and>
           has_won (characters (run [Character_update 0 (1 / 60) frame_goal] scene_one) ! 0)"
    by (simp add: run_def step_characters update_has_won eval_defs del: step.simps)
  with has_won_monotonic [of "[]" "[]" no_game 0
      "run [Character_update 0 (1 / 60) frame_goal] scene_one"
      "[Character_update 0 (1 / 60) frame_bomb, Scene_update 4 False,
        World_step (\<lambda>i. v2 0 561) (\<lambda>i. v2 0 0), Character_update 0 (1 / 60) frame_attack]"
      scene3_one]
  show ?thesis by blast
qed


section \<open>Respawn and world wrap\<close>

lemma body_win: "body (win c) = disable (set_velocity (v2 0 0) (set_position (v2 (- 1000) (- 1000)) (body c)))"
  by (simp add: win_def)

lemma body_respawn: "body (respawn c) = set_velocity (v2 0 0) (set_position (p_position c) (body c))"
  by (simp add: respawn_def)

lemma update_body:
  "body (fst (fst (NCharacter_update dt inp (c, s)))) =
     (let b4 = (if \<not> has_won c \<and> (\<exists>cb \<in> set (contacts inp). tagged ''goal'' cb)
                then body (win c) else body c)
      in if vec_y (get_position_pixels b4) > vec_y (level_size inp) + 200
         then set_velocity (v2 0 0) (set_position (p_position c) b4) else b4)"
  by (simp add: NCharacter_update_self goal_check_fst Let_def body_win body_respawn)

lemma update3_body:
  "body (fst (fst (NCharacter3_update dt inp (c, s3)))) =
     (let b4 = (if \<not> has_won c \<and> (\<exists>cb \<in> set (contacts inp). tagged ''goal'' cb)
                then body (win c) else body c);
          b5 = (if \<exists>cb \<in> set (bomb_contacts inp). tagged ''bomb'' cb
                then set_velocity (v2 0 0) (set_position (p_position c) b4) else b4);
          position = get_position_pixels b5;
          b6 = (if vec_x position \<le> 0
                then set_velocity (get_velocity_pixels b5)
                       (set_position (v2 (vec_x (level_size inp)) (vec_y position)) b5)
                else if vec_x position \<ge> vec_x (level_size inp)
                then set_velocity (get_velocity_pixels b5) (set_position (v2 0 (vec_y position)) b5)
                else b5)
      in if vec_y position > vec_y (level_size inp) + 200
         then set_velocity (v2 0 0) (set_position (p_position c) b6) else b6)"
  by (simp add: NCharacter3_update_self goal_check_fst Let_def body_win body_respawn
        bomb_loop_eq world_wrap_def)

text \<open>
  C6, as stated, fails when the character wins in the same update: the goal check runs
  first and moves the body to \<open>(-1000, -1000)\<close>, so the out-of-bounds test no longer
  fires and the body is not at the start position.
\<close>

theorem respawn_below_level_counterexample:
  "vec_y (get_position_pixels (body fallen_player)) > vec_y (level_size frame_goal) + 200 \<and>
   get_position_pixels (body (fst (fst (NCharacter_update (1 / 60) frame_goal (fallen_player, scene_one)))))
     = v2 (- 1000) (- 1000) \<and>
   get_position_pixels (body (fst (fst (NCharacter_update (1 / 60) frame_goal (fallen_player, scene_one)))))
     \<noteq> p_position fallen_player"
  by (simp add: update_body Let_def body_win eval_defs)


text \<open>
  C6, amended. When the body is more than 200 pixels below the level and the character
  does not win in this update (it has won before, or no contact is a goal), the update
  leaves the body at the start position with zero velocity and \<open>has_won\<close> as it was,
  whether the character has won or not. In level 3 this needs, when a bomb is touched, that
  the start position is inside the level's width or itself below the level.
\<close>

theorem respawn_below_level:
  "vec_y (get_position_pixels (body c)) > vec_y (level_size inp) + 200 \<Longrightarrow>
   has_won c \<or> \<not> (\<exists>cb \<in> set (contacts inp). tagged ''goal'' cb) \<Longrightarrow>
   (let c' = fst (fst (NCharacter_update dt inp (c, s)))
    in get_position_pixels (body c') = p_position c \<and> get_velocity_pixels (body c') = v2 0 0 \<and>
       has_won c' = has_won c) \<and>
   (((\<exists>cb \<in> set (bomb_contacts inp). tagged ''bomb'' cb) \<longrightarrow>
       (0 < vec_x (p_position c) \<and> vec_x (p_position c) < vec_x (level_size inp)) \<or>
       vec_y (p_position c) > vec_y (level_size inp) + 200) \<longrightarrow>
    (let c' = fst (fst (NCharacter3_update dt inp (c, s3)))
     in get_position_pixels (body c') = p_position c \<and> get_velocity_pixels (body c') = v2 0 0 \<and>
        has_won c' = has_won c))"
  by (auto simp add: update_body update3_body update_has_won Let_def body_ops)

theorem respawn_below_level_witness:
  "vec_y (get_position_pixels (body fallen_player)) > vec_y (level_size frame_idle) + 200 \<and>
   get_position_pixels (body (fst (fst (NCharacter_update (1 / 60) frame_idle (fallen_player, scene_one)))))
     = v2 40 50 \<and>
   get_velocity_pixels (body (fst (fst (NCharacter_update (1 / 60) frame_idle (fallen_player, scene_one)))))
     = v2 0 0 \<and>
   get_position_pixels (body (fst (fst (NCharacter3_update (1 / 60) frame_bomb (fallen_player, scene3_one)))))
     = v2 40 50 \<and>
   \<not> has_won (fst (fst (NCharacter3_update (1 / 60) frame_bomb (fallen_player, scene3_one))))"
  using respawn_below_level [of frame_idle fallen_player "1 / 60" scene_one scene3_one]
        respawn_below_level [of frame_bomb fallen_player "1 / 60" scene_one scene3_one]
  by (simp add: Let_def eval_defs)


text \<open>
  C7, as stated, fails when the body is also more than 200 pixels below the level: the
  out-of-bounds respawn follows the wrap in the same update, so the body ends at the start
  position with zero velocity.
\<close>

theorem world_wrap_level3_counterexample:
  "vec_x (get_position_pixels (body fallen_player)) \<le> 0 \<and>
   get_position_pixels (body (fst (fst (NCharacter3_update (1 / 60) frame_idle (fallen_player, scene3_one)))))
     = v2 40 50 \<and>
   get_position_pixels (body (fst (fst (NCharacter3_update (1 / 60) frame_idle (fallen_player, scene3_one)))))
     \<noteq> v2 (vec_x (level_size frame_idle)) (vec_y (get_position_pixels (body fallen_player))) \<and>
   get_velocity_pixels (body (fst (fst (NCharacter3_update (1 / 60) frame_idle (fallen_player, scene3_one)))))
     \<noteq> get_velocity_pixels (body fallen_player)"
  by (simp add: update3_body Let_def eval_defs)


text \<open>
  C7, amended. In level 3, when the character does not win in this update, touches no bomb
  and is not more than 200 pixels below the level, and the level width is positive: from
  \<open>x \<le> 0\<close> the update moves the body to \<open>(level_width, y)\<close>, and from
  \<open>x \<ge> level_width\<close> to \<open>(0, y)\<close>, with the velocity unchanged.
\<close>

theorem world_wrap_level3:
  "has_won c \<or> \<not> (\<exists>cb \<in> set (contacts inp). tagged ''goal'' cb) \<Longrightarrow>
   \<not> (\<exists>cb \<in> set (bomb_contacts inp). tagged ''bomb'' cb) \<Longrightarrow>
   vec_y (get_position_pixels (body c)) \<le> vec_y (level_size inp) + 200 \<Longrightarrow>
   0 < vec_x (level_size inp) \<Longrightarrow>
   (let c' = fst (fst (NCharacter3_update dt inp (c, s3)))
    in (vec_x (get_position_pixels (body c)) \<le> 0 \<longrightarrow>
          get_position_pixels (body c') =
            v2 (vec_x (level_size inp)) (vec_y (get_position_pixels (body c))) \<and>
          get_velocity_pixels (body c') = get_velocity_pixels (body c)) \<and>
       (vec_x (get_position_pixels (body c)) \<ge> vec_x (level_size inp) \<longrightarrow>
          get_position_pixels (body c') = v2 0 (vec_y (get_position_pixels (body c))) \<and>
          get_velocity_pixels (body c') = get_velocity_pixels (body c)))"
  by (auto simp add: update3_body Let_def body_ops)

theorem world_wrap_level3_witness:
  "get_position_pixels (body (fst (fst (NCharacter3_update (1 / 60) frame_idle (edge_player 0, scene3_one)))))
     = v2 640 100 \<and>
   get_velocity_pixels (body (fst (fst (NCharacter3_update (1 / 60) frame_idle (edge_player 0, scene3_one)))))
     = v2 (- 30) 5 \<and>
   get_position_pixels (body (fst (fst (NCharacter3_update (1 / 60) frame_idle (edge_player 640, scene3_one)))))
     = v2 0 100 \<and>
   get_velocity_pixels (body (fst (fst (NCharacter3_update (1 / 60) frame_idle (edge_player 640, scene3_one)))))
     = v2 (- 30) 5"
  using world_wrap_level3 [of "edge_player 0" frame_idle "1 / 60" scene3_one]
        world_wrap_level3 [of "edge_player 640" frame_idle "1 / 60" scene3_one]
  by (simp add: Let_def eval_defs)


section \<open>Winner registration\<close>

lemma dict_set_keys:
  "dict_keys (dict_set k v d) = (if k \<in> set (dict_keys d) then dict_keys d else dict_keys d @ [k])"
  by (induction d) (auto simp add: dict_keys_def)

lemma dict_set_get: "dict_get (dict_set k v d) k' = (if k' = k then Some v else dict_get d k')"
  by (induction d) (auto simp add: dict_get_def)

lemma dict_set_count:
  "distinct (dict_keys d) \<Longrightarrow> length (filter (\<lambda>e. fst e = k) (dict_set k v d)) = 1"
proof (induction d)
  case Nil
  then show ?case by simp
next
  case (Cons e d)
  have "k \<notin> set (dict_keys d) \<Longrightarrow> filter (\<lambda>e. fst e = k) d = []"
    by (auto simp add: dict_keys_def filter_empty_conv)
  with Cons show ?case by (auto simp add: dict_keys_def)
qed

lemma add_winner_twice:
  "add_winner p (add_winner p s) = add_winner p s"
  "add_winner3 p (add_winner3 p s3) = add_winner3 p s3"
  by (simp_all add: add_winner_def add_winner3_def)

text \<open>
  C4. Winner registration is idempotent. A second \<open>add_winner\<close> for the same player
  changes nothing, in either level; for a player not yet among the winners the list then
  holds that player once and the winner times hold one entry for it, at zero. When a
  character that has not won touches the goal, its update registers it, and a second
  update, whatever it reads, leaves the scene as the first one left it.
\<close>

theorem winner_registration_idempotent:
  "add_winner p (add_winner p s) = add_winner p s \<and>
   add_winner3 p (add_winner3 p s3) = add_winner3 p s3 \<and>
   (p \<notin> set (winners s) \<and> distinct (dict_keys (winner_times s)) \<longrightarrow>
      length (filter (\<lambda>q. q = p) (winners (add_winner p (add_winner p s)))) = 1 \<and>
      length (filter (\<lambda>e. fst e = p) (winner_times (add_winner p (add_winner p s)))) = 1 \<and>
      dict_get (winner_times (add_winner p (add_winner p s))) p = Some 0) \<and>
   (\<not> has_won c \<and> (\<exists>cb \<in> set (contacts inp). tagged ''goal'' cb) \<longrightarrow>
      (let st1 = fst (NCharacter_update dt inp (c, s));
           st2 = fst (NCharacter_update dt' inp' st1)
       in has_won (fst st1) \<and> snd st1 = add_winner (player_number c) s \<and>
          has_won (fst st2) \<and> snd st2 = snd st1))"
proof -
  have a: "p \<notin> set (winners s) \<Longrightarrow> distinct (dict_keys (winner_times s)) \<Longrightarrow>
      length (filter (\<lambda>q. q = p) (winners (add_winner p s))) = 1 \<and>
      length (filter (\<lambda>e. fst e = p) (winner_times (add_winner p s))) = 1 \<and>
      dict_get (winner_times (add_winner p s)) p = Some 0"
    by (auto simp add: add_winner_def filter_empty_conv dict_set_count dict_set_get)
  have b: "\<not> has_won c \<Longrightarrow> \<exists>cb \<in> set (contacts inp). tagged ''goal'' cb \<Longrightarrow>
      (let st1 = fst (NCharacter_update dt inp (c, s));
           st2 = fst (NCharacter_update dt' inp' st1)
       in has_won (fst st1) \<and> snd st1 = add_winner (player_number c) s \<and>
          has_won (fst st2) \<and> snd st2 = snd st1)"
  proof -
    assume h: "\<not> has_won c" "\<exists>cb \<in> set (contacts inp). tagged ''goal'' cb"
    obtain c1 s1 where st1: "fst (NCharacter_update dt inp (c, s)) = (c1, s1)"
      by (cases "fst (NCharacter_update dt inp (c, s))")
    from st1 have c1: "c1 = fst (fst (NCharacter_update dt inp (c, s)))"
      and s1: "s1 = snd (fst (NCharacter_update dt inp (c, s)))" by simp_all
    from h have w: "has_won c1" by (simp add: c1 update_has_won)
    from h have sc: "s1 = add_winner (player_number c) s" by (simp add: s1 update_scene)
    from w have "snd (fst (NCharacter_update dt' inp' (c1, s1))) = s1"
      by (simp add: update_scene)
    moreover from w have "has_won (fst (fst (NCharacter_update dt' inp' (c1, s1))))"
      by (simp add: update_has_won)
    ultimately show ?thesis using w sc by (simp add: st1 Let_def)
  qed
  show ?thesis using a b by (simp add: add_winner_twice)
qed

theorem winner_registration_idempotent_witness:
  "winners (snd (fst (NCharacter_update (1 / 60) frame_goal
      (fst (NCharacter_update (1 / 60) frame_goal (player_one, scene_one)))))) = [1] \<and>
   winner_times (snd (fst (NCharacter_update (1 / 60) frame_goal
      (fst (NCharacter_update (1 / 60) frame_goal (player_one, scene_one)))))) = [(1, 0)] \<and>
   winners (add_winner 1 (add_winner 1 scene_one)) = [1] \<and>
   winner_times (add_winner 1 (add_winner 1 scene_one)) = [(1, 0)]"
proof -
  have h: "\<not> has_won player_one \<and> (\<exists>cb \<in> set (contacts frame_goal). tagged ''goal'' cb)"
    by (simp add: eval_defs)
  have v: "add_winner 1 scene_one = scene_one\<lparr>winners := [1], winner_times := [(1, 0)]\<rparr>"
    by (simp add: add_winner_def fixture_defs)
  have n: "player_number player_one = 1" by (simp add: fixture_defs)
  from winner_registration_idempotent
         [of 1 scene_one scene3_one player_one frame_goal "1 / 60" "1 / 60" frame_goal] h
  show ?thesis by (simp add: Let_def v n)
qed

section \<open>The match timeout\<close>

lemma store_of_store_set [simp]: "store_of (store_set p t g) = dict_set p t (store_of g)"
  by (simp add: store_of_def store_set_def level_times_def)

lemma requests_store_set [simp]: "transition_requests (store_set p t g) = transition_requests g"
  by (simp add: store_set_def)

lemma store_of_next [simp]: "store_of (go_to_scene_next g) = store_of g"
  by (simp add: store_of_def go_to_scene_next_def)

lemma dnf_loop_requests [simp]:
  "transition_requests (dnf_loop idxs cts g) = transition_requests g"
  by (induction idxs arbitrary: g) simp_all

lemma dnf_loop_store:
  "dict_get (store_of (dnf_loop idxs cts g)) p =
     (if (\<exists>i \<in> set idxs. int i + 1 = p) \<and> \<not> dict_contains p cts then Some (- 1)
      else dict_get (store_of g) p)"
  by (induction idxs arbitrary: g) (auto simp add: dict_set_get)

lemma record_dnf_requests [simp]:
  "transition_requests (record_dnf s) = transition_requests (game s)"
  by (simp add: record_dnf_def)

lemma record_dnf_store:
  "dict_get (store_of (record_dnf s)) p =
     (if (\<exists>i < length (characters s). int i + 1 = p) \<and>
         \<not> dict_contains p (player_completion_times s)
      then Some (- 1) else dict_get (store_of (game s)) p)"
proof -
  have "store_of ((game s)\<lparr>player_times_level3 := Some (store_of (game s))\<rparr>) = store_of (game s)"
    by (simp add: store_of_def level_times_def)
  then show ?thesis
    by (auto simp add: record_dnf_def dnf_loop_store)
qed

lemma record_dnf_present: "player_times_level3 (record_dnf s) = Some (store_of (record_dnf s))"
proof -
  have "player_times_level3 g \<noteq> None \<Longrightarrow> player_times_level3 (dnf_loop idxs cts g) \<noteq> None"
    for idxs cts g
    by (induction idxs arbitrary: g) (simp_all add: store_set_def)
  then have "player_times_level3 (record_dnf s) \<noteq> None"
    by (simp add: record_dnf_def)
  then show ?thesis by (auto simp add: store_of_def level_times_def)
qed

lemma dict_contains_get: "dict_contains k d = (dict_get d k \<noteq> None)"
  by (simp add: dict_contains_def dict_keys_def dict_get_def map_of_eq_None_iff)

lemma dict_get_SomeD: "dict_get d k = Some v \<Longrightarrow> (k, v) \<in> set d"
  by (simp add: dict_get_def map_of_SomeD)

lemma dict_set_entries:
  "distinct (dict_keys d) \<Longrightarrow> e \<in> set (dict_set k v d) \<Longrightarrow>
   e = (k, v) \<or> (e \<in> set d \<and> fst e \<noteq> k)"
proof (induction d)
  case Nil
  then show ?case by simp
next
  case (Cons x d)
  show ?case
  proof (cases "fst x = k")
    case True
    with Cons.prems have "e = (k, v) \<or> e \<in> set d" by simp
    moreover from True Cons.prems(1) have "k \<notin> set (map fst d)"
      by (simp add: dict_keys_def)
    then have "\<forall>e' \<in> set d. fst e' \<noteq> k" by auto
    ultimately show ?thesis by auto
  next
    case False
    with Cons.prems have "e = x \<or> e \<in> set (dict_set k v d)" by simp
    with Cons False show ?thesis by (auto simp add: dict_keys_def)
  qed
qed

lemma dict_set_distinct: "distinct (dict_keys d) \<Longrightarrow> distinct (dict_keys (dict_set k v d))"
  by (simp add: dict_set_keys)

lemma numbered_iff:
  "numbered chs = (\<forall>i < length chs. player_number (chs ! i) = int i + 1)"
  by (simp add: numbered_def list_all_length nth_enumerate_eq)

lemma make_characters_numbered: "numbered (make_characters starts)"
  by (simp add: numbered_iff make_characters_def nth_enumerate_eq split_beta NCharacter_init_def)

lemma update3_player_number:
  "player_number (fst (fst (NCharacter3_update dt inp (c, s3)))) = player_number c"
proof -
  have w: "player_number (win c) = player_number c" for c by (simp add: win_def)
  have r: "player_number (respawn c) = player_number c" for c by (simp add: respawn_def)
  have b: "player_number (bomb_loop cbs c) = player_number c" for cbs c
    by (simp add: bomb_loop_eq r)
  have x: "player_number (world_wrap p w c) = player_number c" for p w c
    by (simp add: world_wrap_def)
  show ?thesis
    by (simp add: NCharacter3_update_self goal_check_fst Let_def w r b x)
qed

lemma scene3_inv_characters:
  "scene3_inv s \<Longrightarrow> numbered chs \<Longrightarrow> length chs = length (characters s) \<Longrightarrow>
   scene3_inv (s\<lparr>characters := chs\<rparr>)"
  by (simp add: scene3_inv_def)

lemma add_winner3_inv:
  assumes "scene3_inv s" "1 \<le> p" "p \<le> int (length (characters s))"
  shows "scene3_inv (add_winner3 p s)"
proof (cases "p \<in> set (winners s)")
  case True
  with assms show ?thesis by (simp add: add_winner3_def)
next
  case False
  let ?c = "player_completion_times s"
  from assms have d: "distinct (dict_keys ?c)" by (simp add: scene3_inv_def)
  have "1 \<le> q \<and> q \<le> int (length (characters s)) \<and>
        dict_get (dict_set p (elapsed_time s) (store_of (game s))) q = Some t"
    if "(q, t) \<in> set (dict_set p (elapsed_time s) ?c)" for q t
  proof -
    from dict_set_entries [OF d that]
    consider "(q, t) = (p, elapsed_time s)" | "(q, t) \<in> set ?c" "q \<noteq> p" by auto
    then show ?thesis
    proof cases
      case 1
      with assms show ?thesis by (simp add: dict_set_get)
    next
      case 2
      with assms show ?thesis by (auto simp add: scene3_inv_def list_all_iff dict_set_get)
    qed
  qed
  with assms False d show ?thesis
    by (auto simp add: add_winner3_def scene3_inv_def list_all_iff dict_set_distinct)
qed

lemma step3_character:
  "step3 (Character_update i dt inp) s =
     (if i < length (characters s)
      then (snd (fst (NCharacter3_update dt inp (characters s ! i, s))))
             \<lparr>characters := (characters s)[i := fst (fst (NCharacter3_update dt inp (characters s ! i, s)))]\<rparr>
      else s)"
  by (simp add: Let_def split_beta update_characters)

lemma NScene3_update_frame [simp]:
  "player_completion_times (NScene3_update dt enter s) = player_completion_times s"
  by (simp add: NScene3_update_def Let_def)

lemma NScene3_update_store:
  "dict_get (store_of (game (NScene3_update dt enter s))) p = Some (- 1) \<and>
     \<not> dict_contains p (player_completion_times s) \<or>
   dict_get (store_of (game (NScene3_update dt enter s))) p = dict_get (store_of (game s)) p"
  by (simp add: NScene3_update_def Let_def record_dnf_store)

lemma step3_scene_inv:
  assumes "scene3_inv s"
  shows "scene3_inv (step3 e s)"
proof (cases e)
  case (Character_update i dt inp)
  show ?thesis
  proof (cases "i < length (characters s)")
    case True
    let ?c = "characters s ! i"
    let ?u = "NCharacter3_update dt inp (?c, s)"
    from assms True have n: "player_number ?c = int i + 1" by (simp add: scene3_inv_def numbered_iff)
    with assms True have a: "scene3_inv (snd (fst ?u))"
      by (simp add: update_scene add_winner3_inv)
    from assms have "numbered (characters s)" by (simp add: scene3_inv_def)
    with n True have "numbered ((characters s)[i := fst (fst ?u)])"
      by (simp add: numbered_iff nth_list_update update3_player_number)
    with a True Character_update show ?thesis
      by (simp add: step3_character scene3_inv_characters update_characters del: step3.simps)
  next
    case False
    with assms Character_update show ?thesis by simp
  qed
next
  case (Scene_update dt enter)
  have "dict_get (store_of (game (NScene3_update dt enter s))) p = Some t"
    if "(p, t) \<in> set (player_completion_times s)" for p t
  proof -
    from assms that have g: "dict_get (store_of (game s)) p = Some t"
      by (auto simp add: scene3_inv_def list_all_iff)
    from that have "dict_contains p (player_completion_times s)"
      by (force simp add: dict_contains_def dict_keys_def)
    with NScene3_update_store [of dt enter s p] g show ?thesis by simp
  qed
  with assms Scene_update show ?thesis
    by (auto simp add: scene3_inv_def list_all_iff)
next
  case (World_step pos vel)
  from assms have "numbered (move_bodies pos vel (characters s))"
    by (simp add: scene3_inv_def numbered_iff move_bodies_nth)
  with assms World_step show ?thesis by (simp add: scene3_inv_characters)
qed

lemma run3_scene_inv: "scene3_inv s \<Longrightarrow> scene3_inv (run3 es s)"
  unfolding run3_def by (induction es arbitrary: s) (simp_all add: step3_scene_inv)

lemma init3_scene_inv: "scene3_inv (NScene3_init ps starts g)"
  by (simp add: scene3_inv_def NScene3_init_def make_characters_numbered dict_keys_def)

lemma all_finished_complete:
  assumes "scene3_inv s" "all_finished s" "i < length (characters s)"
  shows "dict_get (player_completion_times s) (int i + 1) \<noteq> None"
proof -
  let ?k = "dict_keys (player_completion_times s)"
  let ?n = "length (characters s)"
  from assms have d: "distinct ?k" by (simp add: scene3_inv_def)
  from assms have sub: "set ?k \<subseteq> {1..int ?n}"
    by (force simp add: scene3_inv_def list_all_iff dict_keys_def)
  from assms have "length ?k = ?n" by (simp add: all_finished_def dict_keys_def)
  with d have "card (set ?k) = card {1..int ?n}" by (simp add: distinct_card)
  with sub have "set ?k = {1..int ?n}" by (simp add: card_subset_eq)
  with assms(3) have "int i + 1 \<in> set ?k" by simp
  then show ?thesis
    using dict_contains_get [of "int i + 1" "player_completion_times s"]
    by (simp add: dict_contains_def)
qed


lemma NScene3_update_game:
  "game (NScene3_update dt enter s) =
     (if all_finished s \<and> 0 < length (characters s) \<and>
         displays_over (s\<lparr>elapsed_time := elapsed_time s + dt,
                           winner_times := age_winner_times dt (winner_display_duration s)
                                             (winner_times s)\<rparr>)
      then go_to_scene_next (game s)
      else (let g3 = (if time_limit s \<le> elapsed_time s + dt
                      then go_to_scene_next (record_dnf s) else game s)
            in if enter then go_to_scene_next g3 else g3))"
  by (simp add: NScene3_update_def Let_def all_finished_def record_dnf_def)

lemma next_fields [simp]:
  "player_times_level3 (go_to_scene_next g) = player_times_level3 g"
  "transition_requests (go_to_scene_next g) = transition_requests g @ [player_times_level3 g]"
  by (simp_all add: go_to_scene_next_def)

lemma timeout_store:
  assumes inv: "scene3_inv s" and late: "time_limit s \<le> elapsed_time s + dt"
  shows "(let s' = NScene3_update dt enter s;
              requests = drop (length (transition_requests (game s)))
                           (transition_requests (game s'))
          in requests \<noteq> [] \<and>
             (\<forall>i < length (characters s).
                \<forall>r \<in> set (player_times_level3 (game s') # requests).
                  dict_get (level_times r) (int i + 1) =
                    (case dict_get (player_completion_times s) (int i + 1) of
                       None \<Rightarrow> Some (- 1) | Some t \<Rightarrow> Some t)))"
proof -
  let ?cts = "player_completion_times s"
  let ?s' = "NScene3_update dt enter s"
  let ?old = "transition_requests (game s)"
  let ?want = "\<lambda>p. case dict_get ?cts p of None \<Rightarrow> Some (- 1) | Some t \<Rightarrow> Some t"
  have known: "dict_get (store_of (game s)) p = Some t" if "dict_get ?cts p = Some t" for p t
    using inv dict_get_SomeD [OF that] by (auto simp add: scene3_inv_def list_all_iff)
  let ?early = "all_finished s \<and> 0 < length (characters s) \<and>
         displays_over (s\<lparr>elapsed_time := elapsed_time s + dt,
                           winner_times := age_winner_times dt (winner_display_duration s)
                                             (winner_times s)\<rparr>)"
  show ?thesis
  proof (cases ?early)
    case True
    then have g: "game ?s' = go_to_scene_next (game s)"
      by (simp add: NScene3_update_game)
    have "dict_get (level_times (player_times_level3 (game s))) (int i + 1) = ?want (int i + 1)"
      if "i < length (characters s)" for i
    proof -
      from all_finished_complete [OF inv _ that] True
      obtain t where t: "dict_get ?cts (int i + 1) = Some t" by auto
      from known [OF t] t show ?thesis by (simp add: store_of_def)
    qed
    with g show ?thesis by (simp add: Let_def)
  next
    case False
    let ?g = "record_dnf s"
    from False late have g: "game ?s' =
        (if enter then go_to_scene_next (go_to_scene_next ?g) else go_to_scene_next ?g)"
      by (simp only: NScene3_update_game Let_def if_False if_True)
    have "dict_get (level_times (player_times_level3 ?g)) (int i + 1) = ?want (int i + 1)"
      if "i < length (characters s)" for i
    proof (cases "dict_get ?cts (int i + 1)")
      case None
      with that show ?thesis
        by (auto simp add: record_dnf_present record_dnf_store level_times_def dict_contains_get)
    next
      case (Some t)
      with known [OF Some] show ?thesis
        by (simp add: record_dnf_present record_dnf_store level_times_def dict_contains_get)
    qed
    with g show ?thesis by (simp add: Let_def)
  qed
qed

text \<open>
  C8. In a scene of level 3 reached from its initial state, an update that brings
  \<open>elapsed_time\<close> to the time limit or beyond requests the scene transition, and in
  the level-3 results store, both after the update and as it stood at each transition
  request of that update, every character without a completion time has the sentinel -1
  and every other character has its completion time.
\<close>

theorem timeout_assigns_dnf:
  "s = run3 es (NScene3_init ps starts g) \<Longrightarrow> time_limit s \<le> elapsed_time s + dt \<Longrightarrow>
   (let s' = NScene3_update dt enter s;
        requests = drop (length (transition_requests (game s))) (transition_requests (game s'))
    in requests \<noteq> [] \<and>
       (\<forall>i < length (characters s).
          \<forall>r \<in> set (player_times_level3 (game s') # requests).
            dict_get (level_times r) (int i + 1) =
              (case dict_get (player_completion_times s) (int i + 1) of
                 None \<Rightarrow> Some (- 1) | Some t \<Rightarrow> Some t)))"
  using timeout_store [OF run3_scene_inv [OF init3_scene_inv]] by blast

lemma scene3_late_eval:
  "characters scene3_late \<noteq> [] \<and> length (characters scene3_late) = 3 \<and>
   player_completion_times scene3_late = [(2, 100)] \<and>
   time_limit scene3_late = 120 \<and> elapsed_time scene3_late = 100 \<and>
   transition_requests (game scene3_late) = []"
  by (simp add: scene3_late_def run3_def NScene3_init_def make_characters_def
        NScene3_update_def all_finished_def displays_over_def Let_def split_beta
        update_scene update_characters NCharacter_init_def frame_goal_def frame_idle_def
        tagged_def has_tag_def add_winner3_def no_game_def)

theorem timeout_assigns_dnf_witness:
  "map (\<lambda>p. dict_get (store_of (game (NScene3_update 20 False scene3_late))) p) [1, 2, 3] =
     [Some (- 1), Some 100, Some (- 1)] \<and>
   drop (length (transition_requests (game scene3_late)))
     (transition_requests (game (NScene3_update 20 False scene3_late))) \<noteq> []"
proof -
  have l: "time_limit scene3_late \<le> elapsed_time scene3_late + 20"
    by (simp add: scene3_late_eval)
  have c: "map (dict_get (player_completion_times scene3_late)) [1, 2, 3] = [None, Some 100, None]"
    by (simp add: scene3_late_eval dict_get_def)
  note t = timeout_assigns_dnf [OF scene3_late_def l, of False, unfolded Let_def]
  from t have r: "drop (length (transition_requests (game scene3_late)))
     (transition_requests (game (NScene3_update 20 False scene3_late))) \<noteq> []" by blast
  from t have "\<forall>i < length (characters scene3_late).
      dict_get (store_of (game (NScene3_update 20 False scene3_late))) (int i + 1) =
        (case dict_get (player_completion_times scene3_late) (int i + 1) of
           None \<Rightarrow> Some (- 1) | Some t \<Rightarrow> Some t)"
    by (simp add: store_of_def)
  then have h: "\<forall>i < 3. dict_get (store_of (game (NScene3_update 20 False scene3_late))) (int i + 1) =
        (case dict_get (player_completion_times scene3_late) (int i + 1) of
           None \<Rightarrow> Some (- 1) | Some t \<Rightarrow> Some t)"
    by (simp add: scene3_late_eval)
  from h [rule_format, of 0] h [rule_format, of 1] h [rule_format, of 2] c r
  show ?thesis by simp
qed

section \<open>The leaderboard ranking\<close>

lemma format_example_1: "format_time (326 / 5) = ''1:05.20''"
  by code_simp

lemma format_example_2: "format_time (- 1) = ''DNF''"
  by (simp add: format_time_def)

lemma format_example_3: "format_time 40 = ''0:40.00''"
  by code_simp

lemma format_example_4: "format_time (4588042120383693 / 70368744177664) = ''1:05.20''"
  by code_simp

lemma result_of_player [simp]: "player (result_of g p) = p"
  by (simp add: result_of_def Let_def split_beta)

lemma result_of_status:
  "status (result_of g p) =
     (if total_time (result_of g p) < 0 then ''DNF''
      else format_time (total_time (result_of g p)))"
  by (simp add: result_of_def Let_def split_beta)

lemma perms3:
  assumes "distinct order" "set order = {1, 2, 3 :: int}"
  shows "order \<in> {[1, 2, 3], [1, 3, 2], [2, 1, 3], [2, 3, 1], [3, 1, 2], [3, 2, 1]}"
proof -
  from assms have "length order = 3" using distinct_card [of order] by simp
  then obtain a b c where o: "order = [a, b, c]"
    by (cases order; cases "tl order"; cases "tl (tl order)") auto
  from assms(2) o have "a \<in> {1, 2, 3}" "b \<in> {1, 2, 3}" "c \<in> {1, 2, 3}" by auto
  with assms(1) o show ?thesis by auto
qed

lemma ranking_by_totals:
  assumes "total_time (result_of g 1) = 326 / 5" "total_time (result_of g 2) = - 1"
    "total_time (result_of g 3) = 40"
    "order \<in> {[1, 2, 3], [1, 3, 2], [2, 1, 3], [2, 3, 1], [3, 1, 2], [3, 2, 1]}"
  shows "LeaderboardScreen_init order g = [result_of g 3, result_of g 1, result_of g 2]"
  using assms
  by (auto simp add: LeaderboardScreen_init_def sort_results_def sort_key_def key_less_def)

text \<open>
  C9, amended. For every results store whose players are 1, 2 and 3 and whose total times,
  as the leaderboard computes them from the three levels, are 65.2 for player 1, the
  sentinel -1 for player 2 and 40.0 for player 3, the leaderboard ranks the players 3, 1,
  2, in whatever order the set of players is visited, and shows \<open>0:40.00\<close>,
  \<open>1:05.20\<close> and \<open>DNF\<close>; \<open>format_time\<close> gives \<open>1:05.20\<close> for 65.2
  (also for the float nearest to 65.2, whose exact value is 4588042120383693 / 2^46),
  \<open>DNF\<close> for -1 and \<open>0:40.00\<close> for 40.
\<close>

theorem leaderboard_ranking:
  "distinct order \<Longrightarrow> set order = all_players g \<Longrightarrow> all_players g = {1, 2, 3} \<Longrightarrow>
   total_time (result_of g 1) = 652 / 10 \<Longrightarrow> total_time (result_of g 2) = - 1 \<Longrightarrow>
   total_time (result_of g 3) = 40 \<Longrightarrow>
   map player (LeaderboardScreen_init order g) = [3, 1, 2] \<and>
   map total_time (LeaderboardScreen_init order g) = [40, 652 / 10, - 1] \<and>
   map status (LeaderboardScreen_init order g) = [''0:40.00'', ''1:05.20'', ''DNF''] \<and>
   format_time (652 / 10) = ''1:05.20'' \<and> format_time (- 1) = ''DNF'' \<and>
   format_time 40 = ''0:40.00'' \<and>
   format_time (4588042120383693 / 70368744177664) = ''1:05.20''"
proof -
  assume o: "distinct order" "set order = all_players g" "all_players g = {1, 2, 3}"
    and t: "total_time (result_of g 1) = 652 / 10" "total_time (result_of g 2) = - 1"
      "total_time (result_of g 3) = 40"
  from t have t1: "total_time (result_of g 1) = 326 / 5" by simp
  from o have "order \<in> {[1, 2, 3], [1, 3, 2], [2, 1, 3], [2, 3, 1], [3, 1, 2], [3, 2, 1]}"
    using perms3 [of order] by simp
  with t1 t(2,3)
  have r: "LeaderboardScreen_init order g = [result_of g 3, result_of g 1, result_of g 2]"
    by (rule ranking_by_totals)
  have s1: "status (result_of g 1) = ''1:05.20''"
    unfolding result_of_status t1 using format_example_1 by simp
  have s2: "status (result_of g 2) = ''DNF''"
    unfolding result_of_status t(2) by simp
  have s3: "status (result_of g 3) = ''0:40.00''"
    unfolding result_of_status t(3) using format_example_3 by simp
  show ?thesis
    by (simp add: r s1 s2 s3 t1 t(2,3) format_example_1 format_example_2 format_example_3
          format_example_4)
qed

lemma totals_game_results:
  "all_players game_results = {1, 2, 3}"
  "total_time (result_of game_results 1) = 652 / 10"
  "total_time (result_of game_results 2) = - 1"
  "total_time (result_of game_results 3) = 40"
  by (auto simp add: all_players_def game_results_def level_times_def dict_keys_def
        result_of_def time_of_def dict_get_def Let_def split_beta)

lemma totals_game_three_levels:
  "all_players game_three_levels = {1, 2, 3}"
  "total_time (result_of game_three_levels 1) = 652 / 10"
  "total_time (result_of game_three_levels 2) = - 1"
  "total_time (result_of game_three_levels 3) = 40"
  by (auto simp add: all_players_def game_three_levels_def level_times_def dict_keys_def
        result_of_def time_of_def dict_get_def Let_def split_beta)

theorem leaderboard_ranking_witness:
  "map player (LeaderboardScreen_init [1, 2, 3] game_results) = [3, 1, 2] \<and>
   map status (LeaderboardScreen_init [1, 2, 3] game_results) = [''0:40.00'', ''1:05.20'', ''DNF''] \<and>
   map player (LeaderboardScreen_init [2, 3, 1] game_three_levels) = [3, 1, 2] \<and>
   map status (LeaderboardScreen_init [2, 3, 1] game_three_levels) =
     [''0:40.00'', ''1:05.20'', ''DNF'']"
  using leaderboard_ranking [of "[1, 2, 3]" game_results]
        leaderboard_ranking [of "[2, 3, 1]" game_three_levels]
  by (simp add: totals_game_results totals_game_three_levels insert_commute)

lemma level3_only_results:
  "all_players game_level3_only = {1, 2, 3}"
  "total_time (result_of game_level3_only p) = - 1"
  "status (result_of game_level3_only p) = ''DNF''"
  by (auto simp add: all_players_def game_level3_only_def level_times_def dict_keys_def
        result_of_def time_of_def dict_get_def Let_def split_beta)

text \<open>
  C9, as stated, fails when the three times are the store of one level. With level 3
  holding 65.2, -1 and 40.0 and the stores of levels 1 and 2 absent, the times of levels 1
  and 2 default to -1 for every player, so every total is the sentinel, every status is
  \<open>DNF\<close>, and the stable sort keeps the order in which the players are visited.
\<close>

theorem leaderboard_single_level_counterexample:
  "set [1, 2, 3] = all_players game_level3_only \<and>
   map player (LeaderboardScreen_init [1, 2, 3] game_level3_only) = [1, 2, 3] \<and>
   map player (LeaderboardScreen_init [1, 2, 3] game_level3_only) \<noteq> [3, 1, 2] \<and>
   map status (LeaderboardScreen_init [1, 2, 3] game_level3_only) = [''DNF'', ''DNF'', ''DNF''] \<and>
   map status (LeaderboardScreen_init [1, 2, 3] game_level3_only)
     \<noteq> [''0:40.00'', ''1:05.20'', ''DNF'']"
  by (simp add: level3_only_results LeaderboardScreen_init_def sort_results_def sort_key_def
        key_less_def)

end
